theory Spec2Isabelle
  imports Complex_Main
begin

section \<open>Python values used throughout\<close>

text \<open>
  Python exceptions raised by the services are values: every fallible function returns a sum,
  \<open>Inl\<close> carrying the exception. Exceptions of the language-model side only carry a
  message (they are all plain \<open>Exception\<close>s); the repository side distinguishes
  \<open>GithubException\<close> by status, because \<open>push_files\<close> catches that class only.
\<close>

type_synonym exn = string

text \<open>\<open>str(n)\<close> for a Python int.\<close>

function str_nat :: "nat \<Rightarrow> string" where
  "str_nat n = (if n < 10 then [''0123456789'' ! n]
                else str_nat (n div 10) @ [''0123456789'' ! (n mod 10)])"
  by pat_completeness auto
termination
  by (relation "measure id") auto

declare str_nat.simps [simp del]

definition str_int :: "int \<Rightarrow> string" where
  "str_int i = (if i < 0 then ''-'' @ str_nat (nat (- i)) else str_nat (nat i))"

text \<open>
  A Python \<open>dict\<close> with string keys: an association list in insertion order, keys distinct.
  \<open>d[k] = v\<close> replaces the value in place when the key is there and appends otherwise.
\<close>

type_synonym 'v pydict = "(string \<times> 'v) list"

definition dict_get :: "'v pydict \<Rightarrow> string \<Rightarrow> 'v option" where
  "dict_get d k = map_of d k"

definition dict_contains :: "'v pydict \<Rightarrow> string \<Rightarrow> bool" where
  "dict_contains d k = (k \<in> set (map fst d))"

fun dict_set :: "'v pydict \<Rightarrow> string \<Rightarrow> 'v \<Rightarrow> 'v pydict" where
  "dict_set [] k v = [(k, v)]"
| "dict_set ((k', v') # d) k v = (if k' = k then (k, v) # d else (k', v') # dict_set d k v)"

definition dict_keys :: "'v pydict \<Rightarrow> string list" where
  "dict_keys d = map fst d"

section \<open>The retry decorator\<close>

text \<open>
  Both \<open>generate_with_fallback\<close> and \<open>notify_evaluation\<close> are wrapped by
  \<open>@retry(stop=stop_after_attempt(k), wait=wait_exponential(multiplier, min, max))\<close>
  of the tenacity library. The decorator calls the function; on an exception it stops with
  \<open>RetryError\<close> (wrapping the last exception) once the attempt number has reached \<open>k\<close>,
  and otherwise sleeps \<open>wait(attempt_number)\<close> seconds and calls again. The sleeps are
  recorded in a list beside the state the function works on.
\<close>

datatype retry_error = RetryError exn

definition wait_exponential :: "nat \<Rightarrow> nat \<Rightarrow> nat \<Rightarrow> nat \<Rightarrow> nat" where
  "wait_exponential multiplier mn mx attempt_number =
     max (max 0 mn) (min (multiplier * 2 ^ (attempt_number - 1)) mx)"

fun retry_from ::
  "(nat \<Rightarrow> nat) \<Rightarrow> ('s \<Rightarrow> (exn + 'a) \<times> 's) \<Rightarrow> nat \<Rightarrow> nat \<Rightarrow> 's \<times> nat list
     \<Rightarrow> (retry_error + 'a) \<times> ('s \<times> nat list)" where
  "retry_from wait f 0 attempt_number (s, sleeps) =
     (case f s of
        (Inr a, s') \<Rightarrow> (Inr a, (s', sleeps))
      | (Inl e, s') \<Rightarrow> (Inl (RetryError e), (s', sleeps)))"
| "retry_from wait f (Suc remaining) attempt_number (s, sleeps) =
     (case f s of
        (Inr a, s') \<Rightarrow> (Inr a, (s', sleeps))
      | (Inl e, s') \<Rightarrow>
          retry_from wait f remaining (Suc attempt_number) (s', sleeps @ [wait attempt_number]))"

definition retry ::
  "nat \<Rightarrow> (nat \<Rightarrow> nat) \<Rightarrow> ('s \<Rightarrow> (exn + 'a) \<times> 's) \<Rightarrow> 's \<times> nat list
     \<Rightarrow> (retry_error + 'a) \<times> ('s \<times> nat list)" where
  "retry stop_after_attempt wait f = retry_from wait f (stop_after_attempt - 1) 1"

section \<open>Language-model providers (app/services/llm)\<close>

subsection \<open>Attachments and the requests sent to a provider\<close>

text \<open>
  A processed attachment, as \<open>AttachmentHandler.process_attachment\<close> builds it. The
  content is \<open>bytes\<close> there; the providers also accept a \<open>str\<close>.
\<close>

datatype att_content = Bytes string | Str string

record attachment =
  att_name :: string
  mime_type :: string
  content :: att_content
  is_binary :: bool
  source :: string

datatype content_part = Text_part string | Image_url_part string

datatype message_content = Content_str string | Content_parts "content_part list"

record chat_message =
  role :: string
  message_content :: message_content

text \<open>
  The two calls the provider clients make: \<open>chat.completions.create(model, messages
  [, max_tokens, temperature])\<close> and \<open>messages.create(model, system, messages)\<close>.
\<close>

datatype api_request =
    Chat_completions_create string "chat_message list" "nat option" "rat option"
  | Messages_create string string "chat_message list"

text \<open>
  What a client call gives back: the message contents of the choices and the usage counters,
  or the text blocks of an Anthropic message with its token counts.
\<close>

datatype api_reply =
    Chat_completion "string option list" "int pydict option"
  | Anthropic_message "string list" int int

datatype provider_kind = OpenRouterProvider | AnthropicProvider | OpenAIProvider | GeminiProvider

record provider =
  kind :: provider_kind
  api_key :: string
  base_url :: "string option"

record LLMResponse =
  resp_content :: "string option"
  resp_model :: string
  resp_provider :: string
  resp_usage :: "int pydict option"

text \<open>
  The state of the outside world on this side is the list of \<open>generate\<close> calls made so
  far: the provider, the model asked for and the request sent (\<open>None\<close> when building the
  request raised before anything was sent). The providers' backends are a function of that
  history: the same request may fail once and succeed later.
\<close>

type_synonym llm_world = "(provider \<times> string \<times> api_request option) list"

type_synonym llm_api = "llm_world \<Rightarrow> provider \<Rightarrow> api_request \<Rightarrow> exn + api_reply"

subsection \<open>base64 and text decoding\<close>

definition b64chars :: string where
  "b64chars = ''ABCDEFGHIJKLMNOPQRSTUVWXYZabcdefghijklmnopqrstuvwxyz0123456789+/''"

fun b64encode_nat :: "nat list \<Rightarrow> string" where
  "b64encode_nat [] = []"
| "b64encode_nat [a] =
     [b64chars ! (a div 4), b64chars ! ((a mod 4) * 16), CHR ''='', CHR ''='']"
| "b64encode_nat [a, b] =
     [b64chars ! (a div 4), b64chars ! ((a mod 4) * 16 + b div 16),
      b64chars ! ((b mod 16) * 4), CHR ''='']"
| "b64encode_nat (a # b # c # rest) =
     [b64chars ! (a div 4), b64chars ! ((a mod 4) * 16 + b div 16),
      b64chars ! ((b mod 16) * 4 + c div 64), b64chars ! (c mod 64)] @ b64encode_nat rest"

text \<open>\<open>base64.b64encode(x).decode('ascii')\<close>: a \<open>TypeError\<close> when \<open>x\<close> is a \<open>str\<close>.\<close>

definition b64encode :: "att_content \<Rightarrow> exn + string" where
  "b64encode c =
     (case c of
        Bytes bs \<Rightarrow> Inr (b64encode_nat (map of_char bs))
      | Str s \<Rightarrow>
          Inl (''a bytes-like object is required, not '' @ [CHR 0x27] @ ''str'' @ [CHR 0x27]))"

text \<open>
  \<open>att['content'].decode('utf-8', errors='replace') if isinstance(att['content'], bytes)
  else att['content']\<close>. The UTF-8 decoder of the Python runtime is a parameter.
\<close>

definition content_text :: "(string \<Rightarrow> string) \<Rightarrow> att_content \<Rightarrow> string" where
  "content_text utf8_replace c = (case c of Bytes bs \<Rightarrow> utf8_replace bs | Str s \<Rightarrow> s)"

definition starts_with :: "string \<Rightarrow> string \<Rightarrow> bool" where
  "starts_with s p = (take (length p) s = p)"

definition file_block :: "(string \<Rightarrow> string) \<Rightarrow> attachment \<Rightarrow> string" where
  "file_block utf8_replace att =
     ''\<newline>\<newline>--- File: '' @ att_name att @ '' ---\<newline>''
       @ content_text utf8_replace (content att)
       @ ''\<newline>--- End of '' @ att_name att @ '' ---''"


subsection \<open>The four providers (providers.py)\<close>

text \<open>
  OpenRouter and OpenAI build the user message as a list of parts: the prompt text first, to
  which the loop appends a labelled block per non-image attachment, and one
  \<open>image_url\<close> part per image attachment. The loop state is the text of part 0 and the
  parts after it.
\<close>

fun openai_user_content ::
  "(string \<Rightarrow> string) \<Rightarrow> attachment list \<Rightarrow> string \<times> content_part list
     \<Rightarrow> exn + string \<times> content_part list" where
  "openai_user_content utf8_replace [] (text, parts) = Inr (text, parts)"
| "openai_user_content utf8_replace (att # atts) (text, parts) =
     (if starts_with (mime_type att) ''image/'' then
        (case b64encode (content att) of
           Inl e \<Rightarrow> Inl e
         | Inr base64_data \<Rightarrow>
             openai_user_content utf8_replace atts
               (text, parts @ [Image_url_part
                  (''data:'' @ mime_type att @ '';base64,'' @ base64_data)]))
      else openai_user_content utf8_replace atts (text @ file_block utf8_replace att, parts))"

text \<open>
  Anthropic and Gemini build one prompt string: the loop appends a labelled block per
  non-image attachment and has no branch for images.
\<close>

fun full_prompt :: "(string \<Rightarrow> string) \<Rightarrow> attachment list \<Rightarrow> string \<Rightarrow> string" where
  "full_prompt utf8_replace [] text = text"
| "full_prompt utf8_replace (att # atts) text =
     (if \<not> starts_with (mime_type att) ''image/''
      then full_prompt utf8_replace atts (text @ file_block utf8_replace att)
      else full_prompt utf8_replace atts text)"

text \<open>\<open>if attachments:\<close> and \<open>if system_prompt:\<close> skip \<open>None\<close> and the empty value.\<close>

definition attachments_or_empty :: "attachment list option \<Rightarrow> attachment list" where
  "attachments_or_empty attachments = (case attachments of None \<Rightarrow> [] | Some atts \<Rightarrow> atts)"

definition system_messages :: "string option \<Rightarrow> chat_message list" where
  "system_messages system_prompt =
     (case system_prompt of
        None \<Rightarrow> []
      | Some s \<Rightarrow> if s = [] then []
                  else [\<lparr>role = ''system'', message_content = Content_str s\<rparr>])"

text \<open>The request each provider sends, or the exception raised while building it.\<close>

definition openai_request ::
  "(string \<Rightarrow> string) \<Rightarrow> string \<Rightarrow> string \<Rightarrow> string option \<Rightarrow> attachment list option
     \<Rightarrow> exn + api_request" where
  "openai_request utf8_replace prompt model system_prompt attachments =
     (case openai_user_content utf8_replace (attachments_or_empty attachments) (prompt, []) of
        Inl e \<Rightarrow> Inl e
      | Inr (text, parts) \<Rightarrow>
          Inr (Chat_completions_create model
                 (system_messages system_prompt
                    @ [\<lparr>role = ''user'',
                         message_content = Content_parts (Text_part text # parts)\<rparr>])
                 None None))"

definition anthropic_request ::
  "(string \<Rightarrow> string) \<Rightarrow> string \<Rightarrow> string \<Rightarrow> string option \<Rightarrow> attachment list option
     \<Rightarrow> exn + api_request" where
  "anthropic_request utf8_replace prompt model system_prompt attachments =
     Inr (Messages_create model
            (case system_prompt of
               None \<Rightarrow> ''You are a helpful assistant.''
             | Some s \<Rightarrow> if s = [] then ''You are a helpful assistant.'' else s)
            [\<lparr>role = ''user'',
              message_content =
                Content_str (full_prompt utf8_replace (attachments_or_empty attachments) prompt)\<rparr>])"

text \<open>\<open>model.split('/', 1)[-1] if '/' in model else model\<close>.\<close>

definition actual_model :: "string \<Rightarrow> string" where
  "actual_model model =
     (if CHR ''/'' \<in> set model then tl (dropWhile (\<lambda>c. c \<noteq> CHR ''/'') model) else model)"

definition gemini_request ::
  "(string \<Rightarrow> string) \<Rightarrow> string \<Rightarrow> string \<Rightarrow> string option \<Rightarrow> attachment list option
     \<Rightarrow> exn + api_request" where
  "gemini_request utf8_replace prompt model system_prompt attachments =
     Inr (Chat_completions_create (actual_model model)
            (system_messages system_prompt
               @ [\<lparr>role = ''user'',
                    message_content =
                      Content_str
                        (full_prompt utf8_replace (attachments_or_empty attachments) prompt)\<rparr>])
            (Some 4096) (Some (7 / 10)))"

definition build_request ::
  "(string \<Rightarrow> string) \<Rightarrow> provider_kind \<Rightarrow> string \<Rightarrow> string \<Rightarrow> string option
     \<Rightarrow> attachment list option \<Rightarrow> exn + api_request" where
  "build_request utf8_replace k prompt model system_prompt attachments =
     (case k of
        OpenRouterProvider \<Rightarrow> openai_request utf8_replace prompt model system_prompt attachments
      | OpenAIProvider \<Rightarrow> openai_request utf8_replace prompt model system_prompt attachments
      | AnthropicProvider \<Rightarrow>
          anthropic_request utf8_replace prompt model system_prompt attachments
      | GeminiProvider \<Rightarrow> gemini_request utf8_replace prompt model system_prompt attachments)"

definition error_prefix :: "provider_kind \<Rightarrow> string" where
  "error_prefix k =
     (case k of
        OpenRouterProvider \<Rightarrow> ''OpenRouter API error: ''
      | AnthropicProvider \<Rightarrow> ''Anthropic API error: ''
      | OpenAIProvider \<Rightarrow> ''OpenAI API error: ''
      | GeminiProvider \<Rightarrow> ''Gemini API error: '')"

definition provider_label :: "provider_kind \<Rightarrow> string" where
  "provider_label k =
     (case k of
        OpenRouterProvider \<Rightarrow> ''openrouter''
      | AnthropicProvider \<Rightarrow> ''anthropic''
      | OpenAIProvider \<Rightarrow> ''openai''
      | GeminiProvider \<Rightarrow> ''gemini'')"

text \<open>
  Reading the reply inside the provider's \<open>try\<close>: \<open>response.choices[0].message.content\<close>
  raises on an empty list, \<open>message.content[0].text if message.content else ""\<close> does
  not; a reply of the other client's shape has no such attribute.
\<close>

definition read_reply :: "provider_kind \<Rightarrow> string \<Rightarrow> api_reply \<Rightarrow> exn + LLMResponse" where
  "read_reply k model reply =
     (case k of
        AnthropicProvider \<Rightarrow>
          (case reply of
             Anthropic_message blocks input_tokens output_tokens \<Rightarrow>
               Inr \<lparr>resp_content = Some (case blocks of [] \<Rightarrow> [] | b # _ \<Rightarrow> b),
                    resp_model = model, resp_provider = ''anthropic'',
                    resp_usage = Some [(''total_tokens'', input_tokens + output_tokens)]\<rparr>
           | Chat_completion choices usage \<Rightarrow> Inl ''AttributeError'')
      | GeminiProvider \<Rightarrow>
          (case reply of
             Chat_completion choices usage \<Rightarrow>
               (case choices of
                  [] \<Rightarrow> Inl ''list index out of range''
                | c # _ \<Rightarrow>
                    (case (case usage of
                             None \<Rightarrow> Inr 0
                           | Some u \<Rightarrow>
                               (case dict_get u ''total_tokens'' of
                                  None \<Rightarrow> Inl ''AttributeError''
                                | Some t \<Rightarrow> Inr t)) of
                       Inl e \<Rightarrow> Inl e
                     | Inr t \<Rightarrow>
                         Inr \<lparr>resp_content = c, resp_model = model, resp_provider = ''gemini'',
                              resp_usage = Some [(''total_tokens'', t)]\<rparr>))
           | Anthropic_message blocks input_tokens output_tokens \<Rightarrow> Inl ''AttributeError'')
      | _ \<Rightarrow>
          (case reply of
             Chat_completion choices usage \<Rightarrow>
               (case choices of
                  [] \<Rightarrow> Inl ''list index out of range''
                | c # _ \<Rightarrow>
                    Inr \<lparr>resp_content = c, resp_model = model,
                         resp_provider = provider_label k, resp_usage = usage\<rparr>)
           | Anthropic_message blocks input_tokens output_tokens \<Rightarrow> Inl ''AttributeError''))"

text \<open>
  \<open>provider.generate\<close>: the request is built outside the \<open>try\<close> (an exception there
  leaves without a request sent), the client call and the reading of the reply are inside it, and
  every exception inside is raised again with the provider's prefix.
\<close>

definition generate ::
  "(string \<Rightarrow> string) \<Rightarrow> llm_api \<Rightarrow> provider \<Rightarrow> string \<Rightarrow> string \<Rightarrow> string option
     \<Rightarrow> attachment list option \<Rightarrow> llm_world \<Rightarrow> (exn + LLMResponse) \<times> llm_world" where
  "generate utf8_replace api p prompt model system_prompt attachments w =
     (case build_request utf8_replace (kind p) prompt model system_prompt attachments of
        Inl e \<Rightarrow> (Inl e, w @ [(p, model, None)])
      | Inr req \<Rightarrow>
          (case api w p req of
             Inl e \<Rightarrow> (Inl (error_prefix (kind p) @ e), w @ [(p, model, Some req)])
           | Inr reply \<Rightarrow>
               (case read_reply (kind p) model reply of
                  Inl e \<Rightarrow> (Inl (error_prefix (kind p) @ e), w @ [(p, model, Some req)])
                | Inr r \<Rightarrow> (Inr r, w @ [(p, model, Some req)]))))"

definition is_available :: "provider \<Rightarrow> bool" where
  "is_available p = (api_key p \<noteq> [])"

subsection \<open>The manager (manager.py)\<close>

record Settings =
  model_preferences :: "string list"
  openrouter_api_key :: "string option"
  anthropic_api_key :: "string option"
  openai_api_key :: "string option"
  gemini_api_key :: "string option"
  openrouter_url :: string

record LLMManager =
  providers :: "provider pydict"
  model_mapping :: "string list pydict"

text \<open>\<open>if settings.x_api_key:\<close> holds for a key that is neither \<open>None\<close> nor empty.\<close>

definition add_provider ::
  "string \<Rightarrow> provider_kind \<Rightarrow> string option \<Rightarrow> string option \<Rightarrow> provider pydict
     \<Rightarrow> provider pydict" where
  "add_provider name k key url ps =
     (case key of
        None \<Rightarrow> ps
      | Some s \<Rightarrow> if s = [] then ps
                  else dict_set ps name \<lparr>kind = k, api_key = s, base_url = url\<rparr>)"

definition initialize_providers :: "Settings \<Rightarrow> provider pydict" where
  "initialize_providers settings =
     add_provider ''gemini'' GeminiProvider (gemini_api_key settings)
       (Some ''https://generativelanguage.googleapis.com/v1beta/openai/'')
       (add_provider ''openai'' OpenAIProvider (openai_api_key settings) None
          (add_provider ''anthropic'' AnthropicProvider (anthropic_api_key settings) None
             (add_provider ''openrouter'' OpenRouterProvider (openrouter_api_key settings)
                (Some (openrouter_url settings)) [])))"

definition LLMManager_init :: "Settings \<Rightarrow> LLMManager" where
  "LLMManager_init settings =
     \<lparr>providers = initialize_providers settings,
      model_mapping =
        [(''anthropic/claude-opus-4.1'', [''openrouter'']),
         (''claude-opus-4-1'', [''anthropic'']),
         (''gpt-5'', [''openrouter'', ''openai'']),
         (''google/gemini-2.5-pro'', [''openrouter'']),
         (''gemini-2.5-pro'', [''gemini''])]\<rparr>"

text \<open>
  The body of \<open>generate_with_fallback\<close>, one pass of the cascade. The inner loop runs
  over the providers of one model: a name that is not configured or a provider that is not
  available is skipped, a call that raises is skipped too, and the first response is
  returned. The outer loop runs over \<open>settings.model_preferences\<close>.
\<close>

fun try_providers ::
  "(string \<Rightarrow> string) \<Rightarrow> llm_api \<Rightarrow> LLMManager \<Rightarrow> string \<Rightarrow> string option
     \<Rightarrow> attachment list option \<Rightarrow> string \<Rightarrow> string list \<Rightarrow> llm_world
     \<Rightarrow> LLMResponse option \<times> llm_world" where
  "try_providers u api mgr prompt system_prompt attachments model [] w = (None, w)"
| "try_providers u api mgr prompt system_prompt attachments model (provider_name # rest) w =
     (case dict_get (providers mgr) provider_name of
        None \<Rightarrow> try_providers u api mgr prompt system_prompt attachments model rest w
      | Some p \<Rightarrow>
          if \<not> is_available p
          then try_providers u api mgr prompt system_prompt attachments model rest w
          else
            (case generate u api p prompt model system_prompt attachments w of
               (Inr response, w') \<Rightarrow> (Some response, w')
             | (Inl e, w') \<Rightarrow>
                 try_providers u api mgr prompt system_prompt attachments model rest w'))"

definition available_providers :: "LLMManager \<Rightarrow> string \<Rightarrow> string list" where
  "available_providers mgr model =
     (case dict_get (model_mapping mgr) model of None \<Rightarrow> [] | Some ps \<Rightarrow> ps)"

fun try_models ::
  "(string \<Rightarrow> string) \<Rightarrow> llm_api \<Rightarrow> LLMManager \<Rightarrow> string \<Rightarrow> string option
     \<Rightarrow> attachment list option \<Rightarrow> string list \<Rightarrow> llm_world
     \<Rightarrow> LLMResponse option \<times> llm_world" where
  "try_models u api mgr prompt system_prompt attachments [] w = (None, w)"
| "try_models u api mgr prompt system_prompt attachments (model # rest) w =
     (case try_providers u api mgr prompt system_prompt attachments model
             (available_providers mgr model) w of
        (Some response, w') \<Rightarrow> (Some response, w')
      | (None, w') \<Rightarrow> try_models u api mgr prompt system_prompt attachments rest w')"

definition all_failed :: exn where
  "all_failed = ''All LLM providers failed. Please check your API keys and configurations.''"

definition cascade ::
  "(string \<Rightarrow> string) \<Rightarrow> llm_api \<Rightarrow> Settings \<Rightarrow> LLMManager \<Rightarrow> string \<Rightarrow> string option
     \<Rightarrow> attachment list option \<Rightarrow> llm_world \<Rightarrow> (exn + LLMResponse) \<times> llm_world" where
  "cascade u api settings mgr prompt system_prompt attachments w =
     (case try_models u api mgr prompt system_prompt attachments
             (model_preferences settings) w of
        (Some response, w') \<Rightarrow> (Inr response, w')
      | (None, w') \<Rightarrow> (Inl all_failed, w'))"

text \<open>
  The decorated function:
  \<open>@retry(stop=stop_after_attempt(3), wait=wait_exponential(multiplier=1, min=2, max=10))\<close>.
\<close>

definition generate_with_fallback ::
  "(string \<Rightarrow> string) \<Rightarrow> llm_api \<Rightarrow> Settings \<Rightarrow> LLMManager \<Rightarrow> string \<Rightarrow> string option
     \<Rightarrow> attachment list option \<Rightarrow> llm_world \<times> nat list
     \<Rightarrow> (retry_error + LLMResponse) \<times> (llm_world \<times> nat list)" where
  "generate_with_fallback u api settings mgr prompt system_prompt attachments =
     retry 3 (wait_exponential 1 2 10)
       (cascade u api settings mgr prompt system_prompt attachments)"

text \<open>
  The candidates of one pass, in the order the two loops reach them: for each preferred
  model, the providers declared for it that are configured and available.
\<close>

definition usable :: "LLMManager \<Rightarrow> string \<Rightarrow> bool" where
  "usable mgr provider_name =
     (case dict_get (providers mgr) provider_name of None \<Rightarrow> False | Some p \<Rightarrow> is_available p)"

definition candidates :: "Settings \<Rightarrow> LLMManager \<Rightarrow> (string \<times> provider) list" where
  "candidates settings mgr =
     concat (map (\<lambda>model. map (\<lambda>n. (model, the (dict_get (providers mgr) n)))
                            (filter (usable mgr) (available_providers mgr model)))
                 (model_preferences settings))"

text \<open>
  What one \<open>generate\<close> call adds to the history, and what it returns when made after a
  given history.
\<close>

definition call_entry ::
  "(string \<Rightarrow> string) \<Rightarrow> string \<Rightarrow> string option \<Rightarrow> attachment list option
     \<Rightarrow> string \<times> provider \<Rightarrow> provider \<times> string \<times> api_request option" where
  "call_entry u prompt system_prompt attachments c =
     (snd c, fst c,
      (case build_request u (kind (snd c)) prompt (fst c) system_prompt attachments of
         Inl e \<Rightarrow> None
       | Inr req \<Rightarrow> Some req))"

definition outcome ::
  "(string \<Rightarrow> string) \<Rightarrow> llm_api \<Rightarrow> string \<Rightarrow> string option \<Rightarrow> attachment list option
     \<Rightarrow> llm_world \<Rightarrow> string \<times> provider \<Rightarrow> exn + LLMResponse" where
  "outcome u api prompt system_prompt attachments w c =
     fst (generate u api (snd c) prompt (fst c) system_prompt attachments w)"

text \<open>
  A linear search through a list of (model, provider) pairs: call each in turn and stop at
  the first response.
\<close>

fun first_success ::
  "(string \<Rightarrow> string) \<Rightarrow> llm_api \<Rightarrow> string \<Rightarrow> string option \<Rightarrow> attachment list option
     \<Rightarrow> (string \<times> provider) list \<Rightarrow> llm_world \<Rightarrow> LLMResponse option \<times> llm_world" where
  "first_success u api prompt system_prompt attachments [] w = (None, w)"
| "first_success u api prompt system_prompt attachments (c # cs) w =
     (case generate u api (snd c) prompt (fst c) system_prompt attachments w of
        (Inr response, w') \<Rightarrow> (Some response, w')
      | (Inl e, w') \<Rightarrow> first_success u api prompt system_prompt attachments cs w')"

text \<open>
  The history before call number \<open>i\<close> of a run that starts from \<open>w\<close> and calls the
  candidates \<open>cs\<close> in turn, and what that call then returns.
\<close>

definition history_before ::
  "(string \<Rightarrow> string) \<Rightarrow> string \<Rightarrow> string option \<Rightarrow> attachment list option
     \<Rightarrow> llm_world \<Rightarrow> (string \<times> provider) list \<Rightarrow> nat \<Rightarrow> llm_world" where
  "history_before u prompt system_prompt attachments w cs i =
     w @ map (call_entry u prompt system_prompt attachments) (take i cs)"

definition call_result ::
  "(string \<Rightarrow> string) \<Rightarrow> llm_api \<Rightarrow> string \<Rightarrow> string option \<Rightarrow> attachment list option
     \<Rightarrow> llm_world \<Rightarrow> (string \<times> provider) list \<Rightarrow> nat \<Rightarrow> exn + LLMResponse" where
  "call_result u api prompt system_prompt attachments w cs i =
     outcome u api prompt system_prompt attachments
       (history_before u prompt system_prompt attachments w cs i) (cs ! i)"

subsection \<open>A concrete image attachment\<close>

definition png_att :: attachment where
  "png_att = \<lparr>att_name = ''logo.png'', mime_type = ''image/png'', content = Bytes ''abc'',
               is_binary = True, source = ''data_uri''\<rparr>"

subsection \<open>A concrete configuration\<close>

text \<open>
  Two keys are configured (OpenRouter and OpenAI), the Gemini key is empty and the Anthropic
  key is absent; the preferences name a model that has no mapping. In \<open>api0\<close> only the
  OpenAI backend answers; in \<open>api_down\<close> none does.
\<close>

definition S0 :: Settings where
  "S0 = \<lparr>model_preferences = [''gpt-5'', ''unknown-model'', ''claude-opus-4-1''],
         openrouter_api_key = Some ''k1'', anthropic_api_key = None,
         openai_api_key = Some ''k2'', gemini_api_key = Some [],
         openrouter_url = ''https://openrouter.ai/api/v1''\<rparr>"

definition M0 :: LLMManager where
  "M0 = LLMManager_init S0"

definition api0 :: llm_api where
  "api0 w p req =
     (if kind p = OpenAIProvider then Inr (Chat_completion [Some ''{}''] None) else Inl ''503'')"

definition api_down :: llm_api where
  "api_down w p req = Inl ''503''"

definition R0 :: LLMResponse where
  "R0 = \<lparr>resp_content = Some ''{}'', resp_model = ''gpt-5'', resp_provider = ''openai'',
          resp_usage = None\<rparr>"

section \<open>Deployment notification (app/services/deployment.py)\<close>

record EvaluationResponseSchema =
  ev_email :: string
  ev_task :: string
  ev_round :: int
  ev_nonce :: string
  ev_repo_url :: string
  ev_commit_sha :: string
  ev_pages_url :: string

text \<open>
  One POST: the URL, the JSON body (\<open>data.model_dump()\<close>) and the headers. The state of the
  outside world is the list of POSTs made so far; the evaluator answers as a function of
  that history, with a transport exception or with a status code and a body text.
\<close>

record http_post =
  post_url :: string
  post_json :: EvaluationResponseSchema
  post_headers :: "(string \<times> string) list"

type_synonym http_world = "http_post list"

type_synonym http_api = "http_world \<Rightarrow> http_post \<Rightarrow> exn + nat \<times> string"

definition notify_request :: "string \<Rightarrow> EvaluationResponseSchema \<Rightarrow> http_post" where
  "notify_request evaluation_url data =
     \<lparr>post_url = evaluation_url, post_json = data,
      post_headers = [(''Content-Type'', ''application/json'')]\<rparr>"

text \<open>
  The body of \<open>notify_evaluation\<close>: status 200 returns \<open>True\<close>, every other status raises
  \<open>Exception("Non-200 response: ...")\<close>, and the \<open>except\<close> clause logs and raises again
  whatever was raised, a transport exception included.
\<close>

definition notify_once ::
  "http_api \<Rightarrow> string \<Rightarrow> EvaluationResponseSchema \<Rightarrow> http_world \<Rightarrow> (exn + bool) \<times> http_world" where
  "notify_once client evaluation_url data w =
     (case client w (notify_request evaluation_url data) of
        Inl e \<Rightarrow> (Inl e, w @ [notify_request evaluation_url data])
      | Inr (status_code, text) \<Rightarrow>
          if status_code = 200 then (Inr True, w @ [notify_request evaluation_url data])
          else (Inl (''Non-200 response: '' @ str_nat status_code),
                w @ [notify_request evaluation_url data]))"

text \<open>
  The decorated function:
  \<open>@retry(stop=stop_after_attempt(5), wait=wait_exponential(multiplier=1, min=1, max=8))\<close>.
\<close>

definition notify_evaluation ::
  "http_api \<Rightarrow> string \<Rightarrow> EvaluationResponseSchema \<Rightarrow> http_world \<times> nat list
     \<Rightarrow> (retry_error + bool) \<times> (http_world \<times> nat list)" where
  "notify_evaluation client evaluation_url data =
     retry 5 (wait_exponential 1 1 8) (notify_once client evaluation_url data)"

text \<open>Whether the evaluator answers 200 to the request after a given history.\<close>

definition answers_200 :: "http_api \<Rightarrow> http_world \<Rightarrow> http_post \<Rightarrow> bool" where
  "answers_200 client w req =
     (case client w req of Inl e \<Rightarrow> False | Inr (status_code, text) \<Rightarrow> status_code = 200)"

subsection \<open>Concrete evaluators\<close>

definition E0 :: EvaluationResponseSchema where
  "E0 = \<lparr>ev_email = ''a@b.c'', ev_task = ''t1'', ev_round = 1, ev_nonce = ''n'',
          ev_repo_url = ''https://github.com/u/t1-a'', ev_commit_sha = ''abc'',
          ev_pages_url = ''https://u.github.io/t1-a/''\<rparr>"

definition always_201 :: http_api where
  "always_201 w req = Inr (201, ''Created'')"

definition ok_on_third :: http_api where
  "ok_on_third w req =
     (if length w = 0 then Inl ''ConnectError''
      else if length w = 1 then Inr (503, ''busy'')
      else Inr (200, ''ok''))"

section \<open>Code generation (app/services/code_generator.py)\<close>

record AttachmentSchema =
  as_name :: string
  as_url :: string

record BuildRequestSchema =
  req_email :: string
  req_secret :: string
  req_task :: string
  req_round :: int
  req_nonce :: string
  req_brief :: string
  req_checks :: "string list"
  req_evaluation_url :: string
  req_attachments :: "AttachmentSchema list"

text \<open>
  The functions of the \<open>json\<close> and \<open>re\<close> modules that the generator calls are parameters:
  \<open>json.dumps(xs, indent=2)\<close> of a list of strings, \<open>json.loads\<close> (\<open>None\<close> when it raises
  \<open>JSONDecodeError\<close>; the value is a dict of files or something else) and
  \<open>re.findall\<close> of the fenced code blocks, giving (language, code) pairs.
\<close>

datatype json_value = JDict "string pydict" | JOther

record pylib =
  json_dumps :: "string list \<Rightarrow> string"
  json_loads :: "string \<Rightarrow> json_value option"
  find_code_blocks :: "string \<Rightarrow> (string \<times> string) list"

datatype app_error = LLMError retry_error | TypeError

text \<open>\<open>re.search(r'\{[\s\S]*\}', response)\<close>: from the first \<open>{\<close> to the last \<open>}\<close> after it.\<close>

definition json_match :: "string \<Rightarrow> string option" where
  "json_match response =
     (let s = dropWhile (\<lambda>c. c \<noteq> CHR ''{'') response
      in if s \<noteq> [] \<and> CHR ''}'' \<in> set s
         then Some (rev (dropWhile (\<lambda>c. c \<noteq> CHR ''}'') (rev s)))
         else None)"

text \<open>\<open>files.update(parsed)\<close>.\<close>

fun dict_update :: "'v pydict \<Rightarrow> 'v pydict \<Rightarrow> 'v pydict" where
  "dict_update d [] = d"
| "dict_update d ((k, v) # rest) = dict_update (dict_set d k v) rest"

definition add_code_block :: "pylib \<Rightarrow> string \<Rightarrow> string \<Rightarrow> string pydict \<Rightarrow> string pydict" where
  "add_code_block lib lang code files =
     (if lang = ''html'' then dict_set files ''index.html'' code
      else if lang = ''javascript'' \<or> lang = ''js'' then dict_set files ''script.js'' code
      else if lang = ''css'' then dict_set files ''style.css'' code
      else if lang = ''json'' then
        (case json_loads lib code of
           Some (JDict parsed) \<Rightarrow> dict_update files parsed
         | _ \<Rightarrow> files)
      else files)"

fun parse_code_blocks :: "pylib \<Rightarrow> (string \<times> string) list \<Rightarrow> string pydict \<Rightarrow> string pydict" where
  "parse_code_blocks lib [] files = files"
| "parse_code_blocks lib (block # rest) files =
     parse_code_blocks lib rest (add_code_block lib (fst block) (snd block) files)"

text \<open>
  \<open>_parse_code_response\<close>. A text that starts with \<open>{\<close> and parses is an object, so the
  first \<open>json.loads\<close> gives a dict whenever it returns.
\<close>

definition parse_code_response :: "pylib \<Rightarrow> string \<Rightarrow> string pydict" where
  "parse_code_response lib response =
     (case (case json_match response of None \<Rightarrow> None | Some m \<Rightarrow> json_loads lib m) of
        Some (JDict files) \<Rightarrow> files
      | Some JOther \<Rightarrow> []
      | None \<Rightarrow> parse_code_blocks lib (find_code_blocks lib response) [])"

definition join_lines :: "string list \<Rightarrow> string" where
  "join_lines xs = concat (case xs of [] \<Rightarrow> [] | x # rest \<Rightarrow> x # map (\<lambda>y. CHR 0x0A # y) rest)"

definition generate_default_html :: "BuildRequestSchema \<Rightarrow> string" where
  \<open>generate_default_html request =
     ''<!DOCTYPE html>\<newline><html lang="en">\<newline><head>\<newline>''
     @ ''    <meta charset="UTF-8">\<newline>''
     @ ''    <meta name="viewport" content="width=device-width, initial-scale=1.0">\<newline>''
     @ ''    <title>'' @ req_task request @ ''</title>\<newline>''
     @ ''    <link href="https://cdn.jsdelivr.net/npm/bootstrap@5.1.3/dist/css/bootstrap.min.css" rel="stylesheet">\<newline>''
     @ ''    <style>\<newline>        body { padding: 20px; }\<newline>    </style>\<newline></head>\<newline><body>\<newline>''
     @ ''    <div class="container">\<newline>        <h1>'' @ req_task request @ ''</h1>\<newline>''
     @ ''        <div id="app">\<newline>''
     @ ''            <!-- Application content will be rendered here -->\<newline>''
     @ ''        </div>\<newline>    </div>\<newline>''
     @ ''    <script src="script.js"></script>\<newline></body>\<newline></html>''\<close>

definition generate_readme :: "BuildRequestSchema \<Rightarrow> string pydict \<Rightarrow> string" where
  \<open>generate_readme request files =
     ''# '' @ req_task request @ ''\<newline>\<newline>## Summary\<newline>''
     @ ''This application was generated to fulfill the following requirements:\<newline>''
     @ req_brief request @ ''\<newline>\<newline>## Setup\<newline>1. Clone this repository\<newline>''
     @ ''2. Open `index.html` in a web browser\<newline>3. The application is ready to use\<newline>\<newline>''
     @ ''## Usage\<newline>The application provides the following functionality based on the requirements:\<newline>''
     @ join_lines (map (\<lambda>check. ''- '' @ check) (req_checks request))
     @ ''\<newline>\<newline>## Code Explanation\<newline>### Files Included:\<newline>''
     @ join_lines (map (\<lambda>filename. ''- `'' @ filename @ ''`'') (dict_keys files))
     @ ''\<newline>\<newline>### Key Features:\<newline>- Responsive design using Bootstrap\<newline>''
     @ ''- Error handling for robust operation\<newline>- Clean, maintainable code structure\<newline>\<newline>''
     @ ''## License\<newline>This project is licensed under the MIT License - see the LICENSE file for details.\<newline>\<newline>''
     @ ''## Task Details\<newline>- Task ID: '' @ req_task request
     @ ''\<newline>- Round: '' @ str_int (req_round request)
     @ ''\<newline>- Email: '' @ req_email request @ ''\<newline>''\<close>

definition generate_mit_license :: string where
  \<open>generate_mit_license =
     ''MIT License\<newline>\<newline>Copyright (c) 2024\<newline>\<newline>''
     @ ''Permission is hereby granted, free of charge, to any person obtaining a copy\<newline>''
     @ ''of this software and associated documentation files (the "Software"), to deal\<newline>''
     @ ''in the Software without restriction, including without limitation the rights\<newline>''
     @ ''to use, copy, modify, merge, publish, distribute, sublicense, and/or sell\<newline>''
     @ ''copies of the Software, and to permit persons to whom the Software is\<newline>''
     @ ''furnished to do so, subject to the following conditions:\<newline>\<newline>''
     @ ''The above copyright notice and this permission notice shall be included in all\<newline>''
     @ ''copies or substantial portions of the Software.\<newline>\<newline>''
     @ ''THE SOFTWARE IS PROVIDED "AS IS", WITHOUT WARRANTY OF ANY KIND, EXPRESS OR\<newline>''
     @ ''IMPLIED, INCLUDING BUT NOT LIMITED TO THE WARRANTIES OF MERCHANTABILITY,\<newline>''
     @ ''FITNESS FOR A PARTICULAR PURPOSE AND NONINFRINGEMENT. IN NO EVENT SHALL THE\<newline>''
     @ ''AUTHORS OR COPYRIGHT HOLDERS BE LIABLE FOR ANY CLAIM, DAMAGES OR OTHER\<newline>''
     @ ''LIABILITY, WHETHER IN AN ACTION OF CONTRACT, TORT OR OTHERWISE, ARISING FROM,\<newline>''
     @ ''OUT OF OR IN CONNECTION WITH THE SOFTWARE OR THE USE OR OTHER DEALINGS IN THE\<newline>''
     @ ''SOFTWARE.''\<close>

text \<open>The lines listing the attachments, added to both prompts.\<close>

definition attachment_lines :: "attachment list \<Rightarrow> string" where
  "attachment_lines atts =
     concat (map (\<lambda>att. ''- '' @ att_name att @ '' ('' @ mime_type att @ '')\<newline>'') atts)"

definition generation_system_prompt :: string where
  \<open>generation_system_prompt =
     ''You are an expert web developer. Generate a complete, working web application based on the requirements.\<newline>''
     @ ''        Generate clean, well-commented code that follows best practices.\<newline>''
     @ ''        The application should be a single-page application that can be deployed to GitHub Pages.\<newline>''
     @ ''        Always include proper error handling and make the code production-ready.\<newline>''
     @ ''        Return your response as a JSON object with file paths as keys and file contents as values.\<newline>''
     @ ''        Example: {"index.html": "<!DOCTYPE html>...", "script.js": "// JavaScript code...", "style.css": "/* CSS code */"}\<newline>''
     @ ''        ''\<close>

definition generation_prompt :: "pylib \<Rightarrow> BuildRequestSchema \<Rightarrow> attachment list \<Rightarrow> string" where
  \<open>generation_prompt lib request processed_attachments =
     ''Create a web application with the following requirements:\<newline>\<newline>Brief: ''
     @ req_brief request
     @ ''\<newline>\<newline>The application will be evaluated based on these checks:\<newline>''
     @ json_dumps lib (req_checks request)
     @ ''\<newline>\<newline>Task ID: '' @ req_task request
     @ ''\<newline>Round: '' @ str_int (req_round request) @ ''\<newline>\<newline>''
     @ (if processed_attachments \<noteq> []
        then ''\<newline>Attachments provided:\<newline>'' @ attachment_lines processed_attachments
        else [])
     @ ''\<newline>Generate a complete application that:\<newline>''
     @ ''1. Meets all the requirements in the brief\<newline>''
     @ ''2. Passes all the evaluation checks\<newline>''
     @ ''3. Handles the provided attachments appropriately\<newline>''
     @ ''4. Is production-ready with proper error handling\<newline>''
     @ ''5. Includes a professional README.md\<newline>''
     @ ''6. Uses modern web development best practices\<newline>\<newline>''
     @ ''Return ONLY a valid JSON object with file paths and contents. Make sure all files needed for a complete application are included.\<newline>''\<close>

text \<open>
  The state the generator works on is that of \<open>generate_with_fallback\<close>: the history of
  provider calls and the sleeps of the retry decorator.
\<close>

type_synonym llm_state = "llm_world \<times> nat list"

text \<open>
  Lines 64 to 77 of \<open>generate_application\<close>: the three required files are added when the
  parsed response lacks them.
\<close>

definition ensure_required_files :: "BuildRequestSchema \<Rightarrow> string pydict \<Rightarrow> string pydict" where
  "ensure_required_files request files0 =
     (let files1 = (if \<not> dict_contains files0 ''index.html''
                    then dict_set files0 ''index.html'' (generate_default_html request)
                    else files0);
          files2 = (if \<not> dict_contains files1 ''README.md''
                    then dict_set files1 ''README.md'' (generate_readme request files1)
                    else files1)
      in if \<not> dict_contains files2 ''LICENSE''
         then dict_set files2 ''LICENSE'' generate_mit_license
         else files2)"

definition generate_application ::
  "pylib \<Rightarrow> (string \<Rightarrow> string) \<Rightarrow> llm_api \<Rightarrow> Settings \<Rightarrow> LLMManager \<Rightarrow> BuildRequestSchema
     \<Rightarrow> attachment list \<Rightarrow> llm_state \<Rightarrow> (app_error + string pydict) \<times> llm_state" where
  "generate_application lib u api settings mgr request processed_attachments st =
     (case generate_with_fallback u api settings mgr
             (generation_prompt lib request processed_attachments)
             (Some generation_system_prompt) (Some processed_attachments) st of
        (Inl e, st') \<Rightarrow> (Inl (LLMError e), st')
      | (Inr response, st') \<Rightarrow>
          (case resp_content response of
             None \<Rightarrow> (Inl TypeError, st')
           | Some text \<Rightarrow>
               (Inr (ensure_required_files request (parse_code_response lib text)), st')))"

subsection \<open>The update path\<close>

definition update_system_prompt :: string where
  \<open>update_system_prompt =
     ''You are an expert web developer. Update the existing application based on new requirements.\<newline>''
     @ ''        Preserve existing functionality while adding new features.\<newline>''
     @ ''        Return your response as a JSON object with file paths as keys and file contents as values.\<newline>''
     @ ''        Include ALL files, both modified and unmodified.\<newline>''
     @ ''        ''\<close>

text \<open>The excerpts of the existing key files appended to the update prompt.\<close>

fun reference_code :: "string pydict \<Rightarrow> string list \<Rightarrow> string" where
  "reference_code existing_files [] = []"
| "reference_code existing_files (filename # rest) =
     (case dict_get existing_files filename of
        None \<Rightarrow> []
      | Some text \<Rightarrow>
          ''\<newline>--- '' @ filename @ '' ---\<newline>'' @ take 1000 text @ ''...\<newline>'')
     @ reference_code existing_files rest"

definition update_prompt ::
  "pylib \<Rightarrow> BuildRequestSchema \<Rightarrow> string pydict \<Rightarrow> attachment list \<Rightarrow> string" where
  \<open>update_prompt lib request existing_files processed_attachments =
     ''Update the existing application with these new requirements:\<newline>\<newline>Brief: ''
     @ req_brief request
     @ ''\<newline>\<newline>New evaluation checks:\<newline>'' @ json_dumps lib (req_checks request)
     @ ''\<newline>\<newline>Current files in the application:\<newline>''
     @ json_dumps lib (dict_keys existing_files)
     @ ''\<newline>\<newline>Task ID: '' @ req_task request
     @ ''\<newline>Round: '' @ str_int (req_round request) @ ''\<newline>\<newline>''
     @ (if processed_attachments \<noteq> []
        then ''\<newline>New attachments provided:\<newline>'' @ attachment_lines processed_attachments
        else [])
     @ ''\<newline>Update the application to:\<newline>''
     @ ''1. Meet all the new requirements in the brief\<newline>''
     @ ''2. Pass all the new evaluation checks\<newline>''
     @ ''3. Maintain existing functionality\<newline>''
     @ ''4. Handle any new attachments appropriately\<newline>''
     @ ''5. Update the README.md to reflect changes\<newline>\<newline>''
     @ ''Current code for reference:\<newline>''
     @ reference_code existing_files [''index.html'', ''script.js'', ''style.css'']
     @ ''\<newline>Return ONLY a valid JSON object with ALL file paths and their complete updated contents.''\<close>

text \<open>
  \<open>s.split(sep)\<close> cut at the first occurrence of a non-empty separator: the text before it
  and the text after it, or \<open>None\<close> when the separator does not occur.
\<close>

fun split_first :: "string \<Rightarrow> string \<Rightarrow> (string \<times> string) option" where
  "split_first sep [] = None"
| "split_first sep (c # s) =
     (if starts_with (c # s) sep then Some ([], drop (length sep) (c # s))
      else (case split_first sep s of
              None \<Rightarrow> None
            | Some (before, after) \<Rightarrow> Some (c # before, after)))"

definition update_section :: "BuildRequestSchema \<Rightarrow> string" where
  "update_section request =
     ''\<newline>\<newline>## Round '' @ str_int (req_round request) @ '' Updates\<newline>### New Requirements:\<newline>''
     @ req_brief request @ ''\<newline>\<newline>### New Checks:\<newline>''
     @ join_lines (map (\<lambda>check. ''- '' @ check) (req_checks request)) @ ''\<newline>''"

text \<open>
  \<open>_update_readme\<close>: \<open>parts[0]\<close> is the text before the first \<open>## License\<close> and
  \<open>parts[1]\<close> the text between the first and the second one (to the end when there is no
  second one).
\<close>

definition update_readme :: "BuildRequestSchema \<Rightarrow> string \<Rightarrow> string" where
  "update_readme request current_readme =
     (case split_first ''## License'' current_readme of
        Some (part0, rest) \<Rightarrow>
          part0 @ update_section request @ ''\<newline>## License''
            @ (case split_first ''## License'' rest of
                 None \<Rightarrow> rest
               | Some (part1, rest') \<Rightarrow> part1)
      | None \<Rightarrow> current_readme @ update_section request)"

text \<open>
  The merge loop of \<open>update_application\<close>: an existing file comes back when the response
  does not have its key and it is not the readme.
\<close>

fun merge_existing :: "string pydict \<Rightarrow> string pydict \<Rightarrow> string pydict" where
  "merge_existing [] files = files"
| "merge_existing ((key, val) # rest) files =
     merge_existing rest
       (if \<not> dict_contains files key \<and> key \<noteq> ''README.md'' then dict_set files key val
        else files)"

text \<open>Lines 251 to 262 of \<open>update_application\<close>, from the parsed response on.\<close>

definition merge_and_update_readme ::
  "BuildRequestSchema \<Rightarrow> string pydict \<Rightarrow> string pydict \<Rightarrow> string pydict" where
  "merge_and_update_readme request existing_files files0 =
     (let files1 = merge_existing existing_files files0
      in case dict_get files1 ''README.md'' of
           Some readme \<Rightarrow> dict_set files1 ''README.md'' (update_readme request readme)
         | None \<Rightarrow> files1)"

definition update_application ::
  "pylib \<Rightarrow> (string \<Rightarrow> string) \<Rightarrow> llm_api \<Rightarrow> Settings \<Rightarrow> LLMManager \<Rightarrow> BuildRequestSchema
     \<Rightarrow> string pydict \<Rightarrow> attachment list \<Rightarrow> llm_state
     \<Rightarrow> (app_error + string pydict) \<times> llm_state" where
  "update_application lib u api settings mgr request existing_files processed_attachments st =
     (case generate_with_fallback u api settings mgr
             (update_prompt lib request existing_files processed_attachments)
             (Some update_system_prompt) (Some processed_attachments) st of
        (Inl e, st') \<Rightarrow> (Inl (LLMError e), st')
      | (Inr response, st') \<Rightarrow>
          (case resp_content response of
             None \<Rightarrow> (Inl TypeError, st')
           | Some text \<Rightarrow>
               (Inr (merge_and_update_readme request existing_files
                       (parse_code_response lib text)), st')))"

subsection \<open>A concrete request and library\<close>

definition Q2 :: BuildRequestSchema where
  "Q2 = \<lparr>req_email = ''a@b.c'', req_secret = ''s'', req_task = ''t1'', req_round = 2,
          req_nonce = ''n'', req_brief = ''add a button'', req_checks = [''has button''],
          req_evaluation_url = ''http://e'', req_attachments = []\<rparr>"

text \<open>
  A stand-in for the library: it reads the one JSON text the examples use, a response that
  regenerates only the script.
\<close>

definition lib0 :: pylib where
  \<open>lib0 = \<lparr>json_dumps = (\<lambda>xs. ''[]''),
            json_loads = (\<lambda>s. if s = ''{"script.js": "v2"}''
                               then Some (JDict [(''script.js'', ''v2'')]) else None),
            find_code_blocks = (\<lambda>s. [])\<rparr>\<close>

definition api_script :: llm_api where
  \<open>api_script w p req = Inr (Chat_completion [Some ''{"script.js": "v2"}''] None)\<close>

definition old_files :: "string pydict" where
  "old_files = [(''index.html'', ''<html>''), (''README.md'', ''# t1''),
                (''LICENSE'', ''MIT''), (''script.js'', ''v1''), (''.init'', ''x'')]"

definition updated_files :: "string pydict" where
  "updated_files = [(''script.js'', ''v2''), (''index.html'', ''<html>''),
                    (''LICENSE'', ''MIT''), (''.init'', ''x'')]"

definition R_script :: LLMResponse where
  \<open>R_script = \<lparr>resp_content = Some ''{"script.js": "v2"}'', resp_model = ''gpt-5'',
                resp_provider = ''openrouter'', resp_usage = None\<rparr>\<close>

section \<open>The repository host (app/services/github/github_service.py)\<close>

subsection \<open>The host's state and its calls\<close>

text \<open>
  The exceptions of this side: \<open>GithubException\<close> with its HTTP status, which
  \<open>push_files\<close> catches, and any other exception (a transport error, say).
\<close>

datatype gh_exn = GithubException nat | OtherException string

record git_commit =
  commit_message :: string
  commit_tree :: nat
  commit_parents :: "nat list"

text \<open>
  A repository as the host keeps it. Commits and trees are only ever added; the sha of a
  commit or tree is its position in the list. A tree is the full mapping from path to blob
  content. \<open>ref_log\<close> records every creation or move of a reference, in order, and
  \<open>calls\<close> the name of every call made to the host, in order. \<open>faults\<close> is what the
  host will do to the coming calls, one entry per call: \<open>Some e\<close> makes the call raise
  \<open>e\<close> without effect, \<open>None\<close> (or no entry left) lets it run.
\<close>

record repo =
  default_branch :: "string option"
  refs :: "nat pydict"
  commits :: "git_commit list"
  trees :: "string pydict list"
  ref_log :: "(string \<times> nat) list"
  calls :: "string list"
  faults :: "gh_exn option list"

definition host_call :: "string \<Rightarrow> repo \<Rightarrow> gh_exn option \<times> repo" where
  "host_call name r =
     (case faults r of
        [] \<Rightarrow> (None, r\<lparr>calls := calls r @ [name]\<rparr>)
      | f # fs \<Rightarrow> (f, r\<lparr>calls := calls r @ [name], faults := fs\<rparr>))"






text \<open>
  \<open>repo.create_file(path, message, content, branch)\<close>, the Contents API. On a repository
  with no commit it makes the first commit and the branch. Otherwise the branch must exist
  (404) and the path must be new on it (422, since no blob sha is given); the file is
  committed on top of the branch's tip.
\<close>

definition create_file :: "string \<Rightarrow> string \<Rightarrow> string \<Rightarrow> string \<Rightarrow> repo \<Rightarrow> (gh_exn + nat) \<times> repo" where
  "create_file path message file_content branch r =
     (case host_call ''create_file'' r of
        (Some e, r') \<Rightarrow> (Inl e, r')
      | (None, r') \<Rightarrow>
          if commits r' = [] then
            (Inr 0,
             r'\<lparr>trees := trees r' @ [[(path, file_content)]],
                commits := [\<lparr>commit_message = message, commit_tree = length (trees r'),
                             commit_parents = []\<rparr>],
                refs := dict_set (refs r') (''heads/'' @ branch) 0,
                ref_log := ref_log r' @ [(''heads/'' @ branch, 0)]\<rparr>)
          else
            (case dict_get (refs r') (''heads/'' @ branch) of
               None \<Rightarrow> (Inl (GithubException 404), r')
             | Some tip \<Rightarrow>
                 if tip < length (commits r')
                    \<and> commit_tree (commits r' ! tip) < length (trees r')
                    \<and> \<not> dict_contains (trees r' ! commit_tree (commits r' ! tip)) path
                 then
                   (Inr (length (commits r')),
                    r'\<lparr>trees := trees r' @
                         [dict_set (trees r' ! commit_tree (commits r' ! tip)) path file_content],
                       commits := commits r' @
                         [\<lparr>commit_message = message, commit_tree = length (trees r'),
                           commit_parents = [tip]\<rparr>],
                       refs := dict_set (refs r') (''heads/'' @ branch) (length (commits r')),
                       ref_log := ref_log r' @ [(''heads/'' @ branch, length (commits r'))]\<rparr>)
                 else (Inl (GithubException 422), r')))"

subsection \<open>\<open>push_files\<close>\<close>




text \<open>The loop that builds the tree elements: every item but the one with key \<open>round\<close>.\<close>

fun tree_elements :: "string pydict \<Rightarrow> (string \<times> string) list" where
  "tree_elements [] = []"
| "tree_elements ((filepath, file_content) # rest) =
     (if filepath = ''round'' then tree_elements rest
      else (filepath, file_content) # tree_elements rest)"






text \<open>Line 55 of \<open>process_build_request\<close>: \<open>files['round'] = str(request.round)\<close>.\<close>

definition add_round_metadata :: "BuildRequestSchema \<Rightarrow> string pydict \<Rightarrow> string pydict" where
  "add_round_metadata request files = dict_set files ''round'' (str_int (req_round request))"

subsection \<open>Concrete repositories\<close>

definition empty_repo :: repo where
  "empty_repo = \<lparr>default_branch = None, refs = [], commits = [], trees = [], ref_log = [],
                  calls = [], faults = []\<rparr>"



text \<open>The same with the placeholder already in the tree, as the first publish leaves it.\<close>

definition init_repo_502 :: repo where
  "init_repo_502 =
     \<lparr>default_branch = Some ''main'', refs = [(''heads/main'', 0)],
      commits = [\<lparr>commit_message = ''Initialize repository'', commit_tree = 0,
                  commit_parents = []\<rparr>],
      trees = [[(''.init'', ''Initialized by application'')]], ref_log = [(''heads/main'', 0)],
      calls = [], faults = [Some (GithubException 502)]\<rparr>"


section \<open>Verification\<close>

subsection \<open>The fallback cascade\<close>

lemma generate_world:
  "snd (generate u api p prompt model sp atts w) = w @ [call_entry u prompt sp atts (model, p)]"
  by (simp add: generate_def call_entry_def split: sum.splits)

lemma first_success_append:
  "first_success u api prompt sp atts (as @ bs) w =
     (case first_success u api prompt sp atts as w of
        (Some r, w') \<Rightarrow> (Some r, w')
      | (None, w') \<Rightarrow> first_success u api prompt sp atts bs w')"
  by (induction as arbitrary: w) (auto split: prod.splits sum.splits option.splits)

lemma try_providers_first_success:
  "try_providers u api mgr prompt sp atts model names w =
     first_success u api prompt sp atts
       (map (\<lambda>n. (model, the (dict_get (providers mgr) n))) (filter (usable mgr) names)) w"
  by (induction names arbitrary: w)
     (auto simp: usable_def split: option.splits prod.splits sum.splits)

lemma try_models_first_success:
  "try_models u api mgr prompt sp atts models w =
     first_success u api prompt sp atts
       (concat (map (\<lambda>model. map (\<lambda>n. (model, the (dict_get (providers mgr) n)))
                            (filter (usable mgr) (available_providers mgr model))) models)) w"
  by (induction models arbitrary: w)
     (auto simp: try_providers_first_success first_success_append split: option.splits prod.splits)

lemma history_before_Cons:
  "history_before u prompt sp atts w (c # cs) (Suc i) =
     history_before u prompt sp atts (w @ [call_entry u prompt sp atts c]) cs i"
  by (simp add: history_before_def)

lemma call_result_Cons:
  "call_result u api prompt sp atts w (c # cs) (Suc i) =
     call_result u api prompt sp atts (w @ [call_entry u prompt sp atts c]) cs i"
  by (simp add: call_result_def history_before_Cons)

lemma call_result_0:
  "call_result u api prompt sp atts w (c # cs) 0 =
     fst (generate u api (snd c) prompt (fst c) sp atts w)"
  by (simp add: call_result_def history_before_def outcome_def)

lemma first_success_trace:
  "first_success u api prompt sp atts cs w = (res, w') \<Longrightarrow>
   \<exists>n. n \<le> length cs \<and> w' = history_before u prompt sp atts w cs n \<and>
     (\<forall>i<n. (Suc i = n \<and> res \<noteq> None) \<or> isl (call_result u api prompt sp atts w cs i)) \<and>
     (case res of
        Some r \<Rightarrow> 0 < n \<and> call_result u api prompt sp atts w cs (n - 1) = Inr r
      | None \<Rightarrow> n = length cs)"
proof (induction cs arbitrary: w)
  case Nil
  then show ?case by (auto simp: history_before_def)
next
  case (Cons c cs)
  let ?g = "generate u api (snd c) prompt (fst c) sp atts w"
  have w1: "snd ?g = w @ [call_entry u prompt sp atts c]"
    using generate_world [of u api "snd c" prompt "fst c" sp atts w] by simp
  show ?case
  proof (cases "fst ?g")
    case (Inr r)
    with Cons.prems w1 have res: "res = Some r" and w': "w' = w @ [call_entry u prompt sp atts c]"
      by (auto split: prod.splits sum.splits)
    show ?thesis
      by (rule exI [of _ 1]) (simp add: res w' history_before_def call_result_0 Inr)
  next
    case (Inl e)
    with Cons.prems w1
    have "first_success u api prompt sp atts cs (w @ [call_entry u prompt sp atts c]) = (res, w')"
      by (auto split: prod.splits sum.splits)
    from Cons.IH [OF this] obtain n where n:
      "n \<le> length cs"
      "w' = history_before u prompt sp atts (w @ [call_entry u prompt sp atts c]) cs n"
      "\<forall>i<n. (Suc i = n \<and> res \<noteq> None) \<or>
         isl (call_result u api prompt sp atts (w @ [call_entry u prompt sp atts c]) cs i)"
      "case res of
         Some r \<Rightarrow> 0 < n \<and>
           call_result u api prompt sp atts (w @ [call_entry u prompt sp atts c]) cs (n - 1) = Inr r
       | None \<Rightarrow> n = length cs"
      by blast
    have all: "\<forall>i<Suc n. (Suc i = Suc n \<and> res \<noteq> None) \<or>
        isl (call_result u api prompt sp atts w (c # cs) i)"
    proof (intro allI impI)
      fix i assume "i < Suc n"
      show "(Suc i = Suc n \<and> res \<noteq> None) \<or> isl (call_result u api prompt sp atts w (c # cs) i)"
      proof (cases i)
        case 0
        then show ?thesis by (simp add: call_result_0 Inl)
      next
        case (Suc j)
        with \<open>i < Suc n\<close> n(3) show ?thesis by (auto simp: call_result_Cons)
      qed
    qed
    have last: "case res of
         Some r \<Rightarrow> 0 < Suc n \<and> call_result u api prompt sp atts w (c # cs) (Suc n - 1) = Inr r
       | None \<Rightarrow> Suc n = length (c # cs)"
      using n(4) by (cases n) (auto simp: call_result_Cons split: option.splits)
    show ?thesis
      by (rule exI [of _ "Suc n"]) (use n(1,2) all last in \<open>simp add: history_before_Cons\<close>)
  qed
qed


lemma cascade_as_linear_search:
  "cascade u api settings mgr prompt sp atts w =
     (case first_success u api prompt sp atts (candidates settings mgr) w of
        (Some r, w') \<Rightarrow> (Inr r, w')
      | (None, w') \<Rightarrow> (Inl all_failed, w'))"
  by (simp add: cascade_def candidates_def try_models_first_success)

lemma retry_3_unfold:
  "retry 3 wait f (s, zs) =
     (case f s of
        (Inr a, s1) \<Rightarrow> (Inr a, (s1, zs))
      | (Inl e1, s1) \<Rightarrow>
          (case f s1 of
             (Inr a, s2) \<Rightarrow> (Inr a, (s2, zs @ [wait 1]))
           | (Inl e2, s2) \<Rightarrow>
               (case f s2 of
                  (Inr a, s3) \<Rightarrow> (Inr a, (s3, zs @ [wait 1, wait 2]))
                | (Inl e3, s3) \<Rightarrow> (Inl (RetryError e3), (s3, zs @ [wait 1, wait 2])))))"
proof -
  have "retry 3 wait f (s, zs) = retry_from wait f (Suc (Suc 0)) (Suc 0) (s, zs)"
    by (simp add: retry_def numeral_2_eq_2 numeral_3_eq_3)
  then show ?thesis
    by (simp add: numeral_2_eq_2 split: prod.splits sum.splits)
qed


lemma gwf_cases:
  assumes f1: "first_success u api prompt sp atts (candidates settings mgr) w = (r1, w1)"
    and f2: "first_success u api prompt sp atts (candidates settings mgr) w1 = (r2, w2)"
    and f3: "first_success u api prompt sp atts (candidates settings mgr) w2 = (r3, w3)"
  shows "generate_with_fallback u api settings mgr prompt sp atts (w, zs) =
     (case r1 of
        Some r \<Rightarrow> (Inr r, (w1, zs))
      | None \<Rightarrow>
          (case r2 of
             Some r \<Rightarrow> (Inr r, (w2, zs @ [wait_exponential 1 2 10 1]))
           | None \<Rightarrow>
               (case r3 of
                  Some r \<Rightarrow>
                    (Inr r, (w3, zs @ [wait_exponential 1 2 10 1, wait_exponential 1 2 10 2]))
                | None \<Rightarrow>
                    (Inl (RetryError all_failed),
                     (w3, zs @ [wait_exponential 1 2 10 1, wait_exponential 1 2 10 2])))))"
  unfolding generate_with_fallback_def retry_3_unfold cascade_as_linear_search
  by (cases r1; cases r2; cases r3) (simp_all add: f1 f2 f3)

lemma first_success_3:
  assumes f1: "first_success u api prompt sp atts cs w = (r1, w1)"
    and f2: "first_success u api prompt sp atts cs w1 = (r2, w2)"
    and f3: "first_success u api prompt sp atts cs w2 = (r3, w3)"
  shows "first_success u api prompt sp atts (cs @ cs @ cs) w =
     (case r1 of
        Some r \<Rightarrow> (Some r, w1)
      | None \<Rightarrow> (case r2 of Some r \<Rightarrow> (Some r, w2) | None \<Rightarrow> (r3, w3)))"
  unfolding first_success_append
  by (cases r1; cases r2) (simp_all add: f1 f2 f3)

lemma gwf_first_success:
  assumes "generate_with_fallback u api settings mgr prompt sp atts (w, zs) = (res, (w', zs'))"
  defines "cs \<equiv> candidates settings mgr"
  shows "first_success u api prompt sp atts (cs @ cs @ cs) w =
           ((case res of Inr r \<Rightarrow> Some r | Inl e \<Rightarrow> None), w')"
    and "\<forall>e. res = Inl e \<longrightarrow> e = RetryError all_failed
           \<and> zs' = zs @ [wait_exponential 1 2 10 1, wait_exponential 1 2 10 2]"
    and "zs' = zs \<or> zs' = zs @ [wait_exponential 1 2 10 1]
           \<or> zs' = zs @ [wait_exponential 1 2 10 1, wait_exponential 1 2 10 2]"
proof -
  let ?F = "first_success u api prompt sp atts cs"
  obtain r1 w1 where f1: "?F w = (r1, w1)" by (cases "?F w")
  obtain r2 w2 where f2: "?F w1 = (r2, w2)" by (cases "?F w1")
  obtain r3 w3 where f3: "?F w2 = (r3, w3)" by (cases "?F w2")
  note g = assms(1) [unfolded gwf_cases [OF f1 [unfolded cs_def] f2 [unfolded cs_def]
                                           f3 [unfolded cs_def]]]
  show "first_success u api prompt sp atts (cs @ cs @ cs) w =
           ((case res of Inr r \<Rightarrow> Some r | Inl e \<Rightarrow> None), w')"
    using g unfolding first_success_3 [OF f1 f2 f3]
    by (cases r1; cases r2; cases r3) auto
  show "\<forall>e. res = Inl e \<longrightarrow> e = RetryError all_failed
           \<and> zs' = zs @ [wait_exponential 1 2 10 1, wait_exponential 1 2 10 2]"
    using g by (cases r1; cases r2; cases r3) auto
  show "zs' = zs \<or> zs' = zs @ [wait_exponential 1 2 10 1]
           \<or> zs' = zs @ [wait_exponential 1 2 10 1, wait_exponential 1 2 10 2]"
    using g by (cases r1; cases r2; cases r3) auto
qed

lemma candidates_usable:
  "c \<in> set (candidates settings mgr) \<Longrightarrow>
     fst c \<in> set (model_preferences settings) \<and>
     (\<exists>name\<in>set (available_providers mgr (fst c)).
        dict_get (providers mgr) name = Some (snd c)) \<and> is_available (snd c)"
  by (auto simp: candidates_def usable_def split: option.splits)

lemma cascade_trace:
  assumes "cascade u api settings mgr prompt system_prompt attachments w = (res, w')"
  shows "\<exists>n\<le>length (candidates settings mgr).
      w' = history_before u prompt system_prompt attachments w (candidates settings mgr) n \<and>
      (\<forall>i<n. (Suc i = n \<and> \<not> isl res) \<or>
         isl (call_result u api prompt system_prompt attachments w (candidates settings mgr) i)) \<and>
      (case res of
         Inr response \<Rightarrow>
           0 < n \<and> call_result u api prompt system_prompt attachments w
                     (candidates settings mgr) (n - 1) = Inr response
       | Inl e \<Rightarrow> n = length (candidates settings mgr) \<and> e = all_failed) \<and>
      (\<forall>c\<in>set (candidates settings mgr).
         fst c \<in> set (model_preferences settings) \<and>
         (\<exists>name\<in>set (available_providers mgr (fst c)).
            dict_get (providers mgr) name = Some (snd c)) \<and> is_available (snd c))"
proof -
  let ?cs = "candidates settings mgr"
  obtain r w1 where f: "first_success u api prompt system_prompt attachments ?cs w = (r, w1)"
    by (cases "first_success u api prompt system_prompt attachments ?cs w")
  from assms f have res: "res = (case r of Some x \<Rightarrow> Inr x | None \<Rightarrow> Inl all_failed)"
    and w': "w' = w1"
    by (auto simp: cascade_as_linear_search split: option.splits)
  from first_success_trace [OF f] obtain n where n:
    "n \<le> length ?cs" "w1 = history_before u prompt system_prompt attachments w ?cs n"
    "\<forall>i<n. (Suc i = n \<and> r \<noteq> None) \<or>
       isl (call_result u api prompt system_prompt attachments w ?cs i)"
    "case r of
       Some x \<Rightarrow> 0 < n \<and> call_result u api prompt system_prompt attachments w ?cs (n - 1) = Inr x
     | None \<Rightarrow> n = length ?cs"
    by blast
  have a: "\<forall>i<n. (Suc i = n \<and> \<not> isl res) \<or>
         isl (call_result u api prompt system_prompt attachments w ?cs i)"
    using n(3) res by (cases r) auto
  have b: "case res of
         Inr response \<Rightarrow>
           0 < n \<and> call_result u api prompt system_prompt attachments w ?cs (n - 1) = Inr response
       | Inl e \<Rightarrow> n = length ?cs \<and> e = all_failed"
    using n(4) res by (cases r) auto
  have c: "\<forall>c\<in>set ?cs.
         fst c \<in> set (model_preferences settings) \<and>
         (\<exists>name\<in>set (available_providers mgr (fst c)).
            dict_get (providers mgr) name = Some (snd c)) \<and> is_available (snd c)"
    using candidates_usable by blast
  show ?thesis
    using n(1,2) a b c w' by blast
qed

lemma first_success_length:
  assumes "first_success u api prompt sp atts cs w = (r, w')"
  shows "length w' \<le> length w + length cs"
    and "r = None \<Longrightarrow> length w' = length w + length cs"
    and "r \<noteq> None \<Longrightarrow> length w < length w'"
proof -
  from first_success_trace [OF assms] obtain n where n:
    "n \<le> length cs" "w' = history_before u prompt sp atts w cs n"
    "case r of
       Some x \<Rightarrow> 0 < n \<and> call_result u api prompt sp atts w cs (n - 1) = Inr x
     | None \<Rightarrow> n = length cs"
    by blast
  from n(1,2) have l: "length w' = length w + n" by (simp add: history_before_def)
  from l n(1) show "length w' \<le> length w + length cs" by simp
  from l n(3) show "r = None \<Longrightarrow> length w' = length w + length cs" by simp
  from l n(3) show "r \<noteq> None \<Longrightarrow> length w < length w'" by (cases r) auto
qed

lemma wait_policy:
  "wait_exponential 1 2 10 k = max 2 (min (2 ^ (k - 1)) 10)"
  by (simp add: wait_exponential_def)

lemma wait_12:
  "wait_exponential 1 2 10 1 = 2" "wait_exponential 1 2 10 2 = 2"
  "wait_exponential (Suc 0) 2 10 (Suc 0) = 2" "wait_exponential (Suc 0) 2 10 2 = 2"
  by (simp_all add: wait_exponential_def)

lemma gwf_sleeps:
  assumes "generate_with_fallback u api settings mgr prompt sp atts (w, zs) = (res, (w', zs'))"
  shows "\<exists>k. zs' = zs @ replicate k 2 \<and>
           (case res of
              Inr r \<Rightarrow> k * length (candidates settings mgr) < length w' - length w \<and>
                       length w' - length w \<le> Suc k * length (candidates settings mgr)
            | Inl e \<Rightarrow> k = 2)"
proof -
  let ?cs = "candidates settings mgr"
  let ?F = "first_success u api prompt sp atts ?cs"
  obtain r1 w1 where f1: "?F w = (r1, w1)" by (cases "?F w")
  obtain r2 w2 where f2: "?F w1 = (r2, w2)" by (cases "?F w1")
  obtain r3 w3 where f3: "?F w2 = (r3, w3)" by (cases "?F w2")
  note g = assms [unfolded gwf_cases [OF f1 f2 f3] wait_12]
  note l1 = first_success_length [OF f1]
  note l2 = first_success_length [OF f2]
  note l3 = first_success_length [OF f3]
  show ?thesis
  proof (cases r1)
    case (Some a)
    with g l1 show ?thesis by (intro exI [of _ 0]) auto
  next
    case n1: None
    show ?thesis
    proof (cases r2)
      case (Some a)
      with g n1 l1 l2 show ?thesis by (intro exI [of _ 1]) auto
    next
      case n2: None
      show ?thesis
      proof (cases r3)
        case (Some a)
        with g n1 n2 l1 l2 l3 show ?thesis
          by (intro exI [of _ 2]) (auto simp: numeral_2_eq_2)
      next
        case None
        with g n1 n2 show ?thesis
          by (intro exI [of _ 2]) (auto simp: numeral_2_eq_2)
      qed
    qed
  qed
qed

lemma gwf_trace:
  assumes "generate_with_fallback u api settings mgr prompt system_prompt attachments (w, zs)
             = (res, (w', zs'))"
  shows "\<exists>n\<le>3 * length (candidates settings mgr).
      w' = history_before u prompt system_prompt attachments w
             (candidates settings mgr @ candidates settings mgr @ candidates settings mgr) n \<and>
      (\<forall>i<n. (Suc i = n \<and> \<not> isl res) \<or>
         isl (call_result u api prompt system_prompt attachments w
               (candidates settings mgr @ candidates settings mgr @ candidates settings mgr) i)) \<and>
      (case res of
         Inr response \<Rightarrow>
           0 < n \<and> call_result u api prompt system_prompt attachments w
                     (candidates settings mgr @ candidates settings mgr @ candidates settings mgr)
                     (n - 1) = Inr response
       | Inl e \<Rightarrow> n = 3 * length (candidates settings mgr) \<and> e = RetryError all_failed)"
proof -
  let ?cs = "candidates settings mgr"
  let ?ccc = "?cs @ ?cs @ ?cs"
  let ?r = "case res of Inr r \<Rightarrow> Some r | Inl e \<Rightarrow> None"
  note g = gwf_first_success [OF assms]
  from first_success_trace [OF g(1)] obtain n where n:
    "n \<le> length ?ccc" "w' = history_before u prompt system_prompt attachments w ?ccc n"
    "\<forall>i<n. (Suc i = n \<and> ?r \<noteq> None) \<or>
       isl (call_result u api prompt system_prompt attachments w ?ccc i)"
    "case ?r of
       Some x \<Rightarrow> 0 < n \<and> call_result u api prompt system_prompt attachments w ?ccc (n - 1) = Inr x
     | None \<Rightarrow> n = length ?ccc"
    by blast
  have a: "\<forall>i<n. (Suc i = n \<and> \<not> isl res) \<or>
         isl (call_result u api prompt system_prompt attachments w ?ccc i)"
    using n(3) by (cases res) auto
  have b: "case res of
         Inr response \<Rightarrow>
           0 < n \<and> call_result u api prompt system_prompt attachments w ?ccc (n - 1) = Inr response
       | Inl e \<Rightarrow> n = 3 * length ?cs \<and> e = RetryError all_failed"
    using n(4) g(2) by (cases res) auto
  from n(1) have "n \<le> 3 * length ?cs" by simp
  with n(2) a b show ?thesis by blast
qed

text \<open>
  Claim C2. \<open>generate_with_fallback\<close> calls the candidates in the order of the model
  preferences and, within a model, of its declared providers, pass after pass (at most three
  passes); an unconfigured or unavailable provider is never a candidate. The calls it makes
  are a prefix of that sequence. When it returns a response, the response is that of the
  last call made and every earlier call failed: it stops at the first call that answers and
  consults no later candidate, and a failing candidate never stops it. When it fails, every
  candidate of all three passes was called and failed. The same holds of a single pass of
  its body.
\<close>

theorem generate_with_fallback_first_success:
  "(generate_with_fallback u api settings mgr prompt system_prompt attachments (w, zs)
      = (res, (w', zs')) \<longrightarrow>
    (\<exists>n\<le>3 * length (candidates settings mgr).
      w' = history_before u prompt system_prompt attachments w
             (candidates settings mgr @ candidates settings mgr @ candidates settings mgr) n \<and>
      (\<forall>i<n. (Suc i = n \<and> \<not> isl res) \<or>
         isl (call_result u api prompt system_prompt attachments w
               (candidates settings mgr @ candidates settings mgr @ candidates settings mgr) i)) \<and>
      (case res of
         Inr response \<Rightarrow>
           0 < n \<and> call_result u api prompt system_prompt attachments w
                     (candidates settings mgr @ candidates settings mgr @ candidates settings mgr)
                     (n - 1) = Inr response
       | Inl e \<Rightarrow> n = 3 * length (candidates settings mgr) \<and> e = RetryError all_failed))) \<and>
   (cascade u api settings mgr prompt system_prompt attachments w = (res1, w1) \<longrightarrow>
    (\<exists>n\<le>length (candidates settings mgr).
      w1 = history_before u prompt system_prompt attachments w (candidates settings mgr) n \<and>
      (\<forall>i<n. (Suc i = n \<and> \<not> isl res1) \<or>
         isl (call_result u api prompt system_prompt attachments w (candidates settings mgr) i)) \<and>
      (case res1 of
         Inr response \<Rightarrow>
           0 < n \<and> call_result u api prompt system_prompt attachments w
                     (candidates settings mgr) (n - 1) = Inr response
       | Inl e \<Rightarrow> n = length (candidates settings mgr) \<and> e = all_failed))) \<and>
   (\<forall>c\<in>set (candidates settings mgr).
      fst c \<in> set (model_preferences settings) \<and>
      (\<exists>name\<in>set (available_providers mgr (fst c)).
         dict_get (providers mgr) name = Some (snd c)) \<and> is_available (snd c))"
proof (intro conjI impI)
  assume "generate_with_fallback u api settings mgr prompt system_prompt attachments (w, zs)
      = (res, (w', zs'))"
  from gwf_trace [OF this]
  show "\<exists>n\<le>3 * length (candidates settings mgr).
      w' = history_before u prompt system_prompt attachments w
             (candidates settings mgr @ candidates settings mgr @ candidates settings mgr) n \<and>
      (\<forall>i<n. (Suc i = n \<and> \<not> isl res) \<or>
         isl (call_result u api prompt system_prompt attachments w
               (candidates settings mgr @ candidates settings mgr @ candidates settings mgr) i)) \<and>
      (case res of
         Inr response \<Rightarrow>
           0 < n \<and> call_result u api prompt system_prompt attachments w
                     (candidates settings mgr @ candidates settings mgr @ candidates settings mgr)
                     (n - 1) = Inr response
       | Inl e \<Rightarrow> n = 3 * length (candidates settings mgr) \<and> e = RetryError all_failed)" .
next
  assume "cascade u api settings mgr prompt system_prompt attachments w = (res1, w1)"
  from cascade_trace [OF this]
  show "\<exists>n\<le>length (candidates settings mgr).
      w1 = history_before u prompt system_prompt attachments w (candidates settings mgr) n \<and>
      (\<forall>i<n. (Suc i = n \<and> \<not> isl res1) \<or>
         isl (call_result u api prompt system_prompt attachments w (candidates settings mgr) i)) \<and>
      (case res1 of
         Inr response \<Rightarrow>
           0 < n \<and> call_result u api prompt system_prompt attachments w
                     (candidates settings mgr) (n - 1) = Inr response
       | Inl e \<Rightarrow> n = length (candidates settings mgr) \<and> e = all_failed)"
    by blast
next
  show "\<forall>c\<in>set (candidates settings mgr).
      fst c \<in> set (model_preferences settings) \<and>
      (\<exists>name\<in>set (available_providers mgr (fst c)).
         dict_get (providers mgr) name = Some (snd c)) \<and> is_available (snd c)"
    using candidates_usable by blast
qed

theorem generate_with_fallback_first_success_witness:
  "generate_with_fallback (\<lambda>s. s) api_script S0 M0 ''hi'' None None ([], []) =
     (Inr R_script,
      (history_before (\<lambda>s. s) ''hi'' None None []
         (candidates S0 M0 @ candidates S0 M0 @ candidates S0 M0) 1, [])) \<and>
   length (candidates S0 M0) = 2 \<and>
   call_result (\<lambda>s. s) api_script ''hi'' None None []
     (candidates S0 M0 @ candidates S0 M0 @ candidates S0 M0) 0 = Inr R_script \<and>
   generate_with_fallback (\<lambda>s. s) api0 S0 M0 ''hi'' None None ([], []) =
     (Inr R0,
      (history_before (\<lambda>s. s) ''hi'' None None []
         (candidates S0 M0 @ candidates S0 M0 @ candidates S0 M0) 2, [])) \<and>
   isl (call_result (\<lambda>s. s) api0 ''hi'' None None []
          (candidates S0 M0 @ candidates S0 M0 @ candidates S0 M0) 0) \<and>
   call_result (\<lambda>s. s) api0 ''hi'' None None []
     (candidates S0 M0 @ candidates S0 M0 @ candidates S0 M0) 1 = Inr R0"
proof -
  let ?ccc = "candidates S0 M0 @ candidates S0 M0 @ candidates S0 M0"
  have l: "length (candidates S0 M0) = 2"
    by code_simp
  have h1: "generate_with_fallback (\<lambda>s. s) api_script S0 M0 ''hi'' None None ([], []) =
     (Inr R_script, (history_before (\<lambda>s. s) ''hi'' None None [] ?ccc 1, []))"
    by code_simp
  have h2: "generate_with_fallback (\<lambda>s. s) api0 S0 M0 ''hi'' None None ([], []) =
     (Inr R0, (history_before (\<lambda>s. s) ''hi'' None None [] ?ccc 2, []))"
    by code_simp
  from generate_with_fallback_first_success
         [of "\<lambda>s. s" api_script S0 M0 "''hi''" None None "[]" "[]" "Inr R_script"
            "history_before (\<lambda>s. s) ''hi'' None None [] ?ccc 1" "[]", THEN conjunct1, THEN mp, OF h1]
  obtain n where n: "n \<le> 3 * length (candidates S0 M0)"
    "history_before (\<lambda>s. s) ''hi'' None None [] ?ccc 1 =
       history_before (\<lambda>s. s) ''hi'' None None [] ?ccc n"
    "0 < n \<and> call_result (\<lambda>s. s) api_script ''hi'' None None [] ?ccc (n - 1) = Inr R_script"
    by auto
  from n(2) have "length (history_before (\<lambda>s. s) ''hi'' None None [] ?ccc 1) =
       length (history_before (\<lambda>s. s) ''hi'' None None [] ?ccc n)"
    by simp
  with n(1) l have "n = 1" by (simp add: history_before_def)
  with n(3) have c1: "call_result (\<lambda>s. s) api_script ''hi'' None None [] ?ccc 0 = Inr R_script"
    by simp
  from generate_with_fallback_first_success
         [of "\<lambda>s. s" api0 S0 M0 "''hi''" None None "[]" "[]" "Inr R0"
            "history_before (\<lambda>s. s) ''hi'' None None [] ?ccc 2" "[]", THEN conjunct1, THEN mp, OF h2]
  obtain m where m: "m \<le> 3 * length (candidates S0 M0)"
    "history_before (\<lambda>s. s) ''hi'' None None [] ?ccc 2 =
       history_before (\<lambda>s. s) ''hi'' None None [] ?ccc m"
    "\<forall>i<m. (Suc i = m \<and> \<not> isl (Inr R0 :: retry_error + LLMResponse)) \<or>
         isl (call_result (\<lambda>s. s) api0 ''hi'' None None [] ?ccc i)"
    "0 < m \<and> call_result (\<lambda>s. s) api0 ''hi'' None None [] ?ccc (m - 1) = Inr R0"
    by auto
  from m(2) have "length (history_before (\<lambda>s. s) ''hi'' None None [] ?ccc 2) =
       length (history_before (\<lambda>s. s) ''hi'' None None [] ?ccc m)"
    by simp
  with m(1) l have "m = 2" by (simp add: history_before_def)
  with m(3,4) have c2: "isl (call_result (\<lambda>s. s) api0 ''hi'' None None [] ?ccc 0)"
    "call_result (\<lambda>s. s) api0 ''hi'' None None [] ?ccc 1 = Inr R0"
    by (auto simp: numeral_2_eq_2)
  from h1 l c1 h2 c2 show ?thesis by (intro conjI)
qed

text \<open>
  Claim C3, as the code has it. The decorated \<open>generate_with_fallback\<close> runs the pass up
  to three times. The wait after attempt \<open>k\<close> under the configured policy is
  \<open>max 2 (min (2 ^ (k - 1)) 10)\<close> seconds: 2, 2, 4, 8, 10, so the two sleeps that three
  attempts allow are both 2 seconds. When the function fails, the error is the retry error
  wrapping "All LLM providers failed", every candidate was called in each of the three passes
  (three times the number of candidates calls, all failing) and the sleeps were 2 and 2
  seconds; when every call fails it does fail in this way. When it returns a response, the
  calls made are a prefix of three passes that ends at the first call that answered, and one
  sleep of 2 seconds was made for each whole pass before that call.
\<close>

theorem generate_with_fallback_exhaustion:
  assumes "generate_with_fallback u api settings mgr prompt system_prompt attachments (w, zs)
             = (res, (w', zs'))"
  shows "(case res of
            Inl e \<Rightarrow>
              e = RetryError all_failed \<and>
              w' = history_before u prompt system_prompt attachments w
                     (candidates settings mgr @ candidates settings mgr @ candidates settings mgr)
                     (3 * length (candidates settings mgr)) \<and>
              length w' = length w + 3 * length (candidates settings mgr) \<and>
              zs' = zs @ [2, 2] \<and>
              (\<forall>i<3 * length (candidates settings mgr).
                 isl (call_result u api prompt system_prompt attachments w
                   (candidates settings mgr @ candidates settings mgr @ candidates settings mgr) i))
          | Inr response \<Rightarrow>
              (\<exists>n<3 * length (candidates settings mgr).
                 w' = history_before u prompt system_prompt attachments w
                     (candidates settings mgr @ candidates settings mgr @ candidates settings mgr)
                     (Suc n) \<and>
                 (\<forall>i<n. isl (call_result u api prompt system_prompt attachments w
                   (candidates settings mgr @ candidates settings mgr @ candidates settings mgr) i)) \<and>
                 call_result u api prompt system_prompt attachments w
                   (candidates settings mgr @ candidates settings mgr @ candidates settings mgr) n
                   = Inr response \<and>
                 zs' = zs @ replicate (n div length (candidates settings mgr)) 2)) \<and>
         ((\<forall>i<3 * length (candidates settings mgr).
              isl (call_result u api prompt system_prompt attachments w
                (candidates settings mgr @ candidates settings mgr @ candidates settings mgr) i))
            \<longrightarrow> isl res) \<and>
         (\<forall>k. wait_exponential 1 2 10 k = max 2 (min (2 ^ (k - 1)) 10)) \<and>
         map (wait_exponential 1 2 10) [1, 2, 3, 4, 5] = [2, 2, 4, 8, 10]"
proof -
  let ?cs = "candidates settings mgr"
  let ?ccc = "?cs @ ?cs @ ?cs"
  from gwf_trace [OF assms] obtain n where n:
    "n \<le> 3 * length ?cs" "w' = history_before u prompt system_prompt attachments w ?ccc n"
    "\<forall>i<n. (Suc i = n \<and> \<not> isl res) \<or>
       isl (call_result u api prompt system_prompt attachments w ?ccc i)"
    "case res of
       Inr response \<Rightarrow>
         0 < n \<and> call_result u api prompt system_prompt attachments w ?ccc (n - 1) = Inr response
     | Inl e \<Rightarrow> n = 3 * length ?cs \<and> e = RetryError all_failed"
    by blast
  from gwf_sleeps [OF assms] obtain k where k:
    "zs' = zs @ replicate k 2"
    "case res of
       Inr r \<Rightarrow> k * length ?cs < length w' - length w \<and> length w' - length w \<le> Suc k * length ?cs
     | Inl e \<Rightarrow> k = 2"
    by blast
  from n(1,2) have lw: "length w' - length w = n" by (simp add: history_before_def)
  have main: "case res of
            Inl e \<Rightarrow>
              e = RetryError all_failed \<and>
              w' = history_before u prompt system_prompt attachments w ?ccc (3 * length ?cs) \<and>
              length w' = length w + 3 * length ?cs \<and>
              zs' = zs @ [2, 2] \<and>
              (\<forall>i<3 * length ?cs.
                 isl (call_result u api prompt system_prompt attachments w ?ccc i))
          | Inr response \<Rightarrow>
              (\<exists>n<3 * length ?cs.
                 w' = history_before u prompt system_prompt attachments w ?ccc (Suc n) \<and>
                 (\<forall>i<n. isl (call_result u api prompt system_prompt attachments w ?ccc i)) \<and>
                 call_result u api prompt system_prompt attachments w ?ccc n = Inr response \<and>
                 zs' = zs @ replicate (n div length ?cs) 2)"
  proof (cases res)
    case (Inl e)
    with n(4) have nn: "n = 3 * length ?cs" and e: "e = RetryError all_failed" by simp_all
    from Inl k have z: "zs' = zs @ [2, 2]" by (simp add: numeral_2_eq_2)
    from n(3) Inl have "\<forall>i<n. isl (call_result u api prompt system_prompt attachments w ?ccc i)"
      by simp
    with Inl e z n(2) nn show ?thesis
      by (simp add: history_before_def)
  next
    case (Inr r)
    with n(4) have pos: "0 < n" and last:
      "call_result u api prompt system_prompt attachments w ?ccc (n - 1) = Inr r"
      by simp_all
    from pos obtain m where m: "n = Suc m" by (cases n) auto
    have early: "\<forall>i<m. isl (call_result u api prompt system_prompt attachments w ?ccc i)"
    proof (intro allI impI)
      fix i assume "i < m"
      with m have "i < n" "Suc i \<noteq> n" by simp_all
      with n(3) show "isl (call_result u api prompt system_prompt attachments w ?ccc i)"
        by blast
    qed
    from k(2) Inr lw m have b: "k * length ?cs \<le> m" "m < Suc k * length ?cs"
      by simp_all
    then have "m div length ?cs = k"
      by (intro div_nat_eqI) (simp_all add: mult.commute)
    with k(1) have z: "zs' = zs @ replicate (m div length ?cs) 2" by simp
    from n(1) m have "m < 3 * length ?cs" by simp
    with Inr last m n(2) early z show ?thesis by auto
  qed
  have conv: "(\<forall>i<3 * length ?cs.
              isl (call_result u api prompt system_prompt attachments w ?ccc i)) \<longrightarrow> isl res"
  proof (cases res)
    case (Inl e)
    then show ?thesis by simp
  next
    case (Inr r)
    with main obtain m where "m < 3 * length ?cs"
      "call_result u api prompt system_prompt attachments w ?ccc m = Inr r"
      by auto
    then show ?thesis by (metis sum.disc(2))
  qed
  have pol: "\<forall>k. wait_exponential 1 2 10 k = max 2 (min (2 ^ (k - 1)) 10)"
    using wait_policy by blast
  have vals: "map (wait_exponential 1 2 10) [1, 2, 3, 4, 5] = [2, 2, 4, 8, 10]"
    by (simp add: wait_exponential_def)
  show ?thesis using main conv pol vals by blast
qed

theorem generate_with_fallback_exhaustion_witness:
  "generate_with_fallback (\<lambda>s. s) api_down S0 M0 ''hi'' None None ([], [])
     = (Inl (RetryError all_failed),
        (history_before (\<lambda>s. s) ''hi'' None None []
           (candidates S0 M0 @ candidates S0 M0 @ candidates S0 M0) 6, [2, 2])) \<and>
   3 * length (candidates S0 M0) = 6 \<and>
   isl (call_result (\<lambda>s. s) api_down ''hi'' None None []
          (candidates S0 M0 @ candidates S0 M0 @ candidates S0 M0) 0) \<and>
   isl (call_result (\<lambda>s. s) api_down ''hi'' None None []
          (candidates S0 M0 @ candidates S0 M0 @ candidates S0 M0) 5)"
proof -
  have h: "generate_with_fallback (\<lambda>s. s) api_down S0 M0 ''hi'' None None ([], [])
     = (Inl (RetryError all_failed),
        (history_before (\<lambda>s. s) ''hi'' None None []
           (candidates S0 M0 @ candidates S0 M0 @ candidates S0 M0) 6, [2, 2]))"
    by code_simp
  have l: "3 * length (candidates S0 M0) = 6"
    by code_simp
  from generate_with_fallback_exhaustion [OF h] l h show ?thesis
    by simp
qed

text \<open>
  The claim as written speaks of an exponential backoff from 2 seconds to a cap of 10. In the
  run where every provider is down, the second sleep is as long as the first: within three
  attempts the waits do not grow and never reach the cap.
\<close>

theorem backoff_is_constant_counterexample:
  "snd (snd (generate_with_fallback (\<lambda>s. s) api_down S0 M0 ''hi'' None None ([], [])))
     = [2, 2] \<and>
   wait_exponential 1 2 10 2 = wait_exponential 1 2 10 1 \<and>
   wait_exponential 1 2 10 2 < 10"
  by code_simp

subsection \<open>Attachments in the providers' requests\<close>

text \<open>
  Claim C9. The four providers do not shape attachments alike. For one PNG attachment,
  OpenRouter and OpenAI send the prompt with an \<open>image_url\<close> part holding the base64 data
  URI, while Anthropic and Gemini send the bare prompt: their request is the one they send
  with no attachment at all.
\<close>

theorem providers_drop_images:
  "build_request (\<lambda>s. s) OpenRouterProvider ''p'' ''m'' None (Some [png_att]) =
     Inr (Chat_completions_create ''m''
            [\<lparr>role = ''user'',
              message_content =
                Content_parts [Text_part ''p'', Image_url_part ''data:image/png;base64,YWJj'']\<rparr>]
            None None) \<and>
   build_request (\<lambda>s. s) OpenAIProvider ''p'' ''m'' None (Some [png_att]) =
     build_request (\<lambda>s. s) OpenRouterProvider ''p'' ''m'' None (Some [png_att]) \<and>
   build_request (\<lambda>s. s) AnthropicProvider ''p'' ''m'' None (Some [png_att]) =
     Inr (Messages_create ''m'' ''You are a helpful assistant.''
            [\<lparr>role = ''user'', message_content = Content_str ''p''\<rparr>]) \<and>
   build_request (\<lambda>s. s) AnthropicProvider ''p'' ''m'' None (Some [png_att]) =
     build_request (\<lambda>s. s) AnthropicProvider ''p'' ''m'' None None \<and>
   build_request (\<lambda>s. s) GeminiProvider ''p'' ''m'' None (Some [png_att]) =
     Inr (Chat_completions_create ''m''
            [\<lparr>role = ''user'', message_content = Content_str ''p''\<rparr>]
            (Some 4096) (Some (7 / 10))) \<and>
   build_request (\<lambda>s. s) GeminiProvider ''p'' ''m'' None (Some [png_att]) =
     build_request (\<lambda>s. s) GeminiProvider ''p'' ''m'' None None"
  by code_simp

subsection \<open>The notification\<close>

lemma retry_from_trace:
  assumes app: "\<And>s. snd (f s) = s @ [x]"
    and run: "retry_from wait f r a (s, zs) = (res, (s', zs'))"
  shows "\<exists>n. 0 < n \<and> n \<le> Suc r \<and> s' = s @ replicate n x \<and>
           zs' = zs @ map wait [a..<a + (n - 1)] \<and>
           (\<forall>i<n - 1. isl (fst (f (s @ replicate i x)))) \<and>
           (case res of
              Inr v \<Rightarrow> fst (f (s @ replicate (n - 1) x)) = Inr v
            | Inl e \<Rightarrow> n = Suc r \<and> (\<exists>e0. fst (f (s @ replicate r x)) = Inl e0 \<and> e = RetryError e0))"
  using run
proof (induction r arbitrary: a s zs)
  case 0
  obtain y s1 where fs: "f s = (y, s1)" by (cases "f s")
  with app [of s] have s1: "s1 = s @ [x]" by simp
  from 0 fs s1 show ?case
    by (intro exI [of _ 1]) (cases y; auto)
next
  case (Suc r)
  obtain y s1 where fs: "f s = (y, s1)" by (cases "f s")
  with app [of s] have s1: "s1 = s @ [x]" by simp
  show ?case
  proof (cases y)
    case (Inr v)
    with Suc.prems fs s1 show ?thesis
      by (intro exI [of _ 1]) auto
  next
    case (Inl e)
    with Suc.prems fs s1
    have "retry_from wait f r (Suc a) (s @ [x], zs @ [wait a]) = (res, (s', zs'))"
      by simp
    from Suc.IH [OF this] obtain n where n: "0 < n" "n \<le> Suc r"
      "s' = (s @ [x]) @ replicate n x"
      "zs' = (zs @ [wait a]) @ map wait [Suc a..<Suc a + (n - 1)]"
      "\<forall>i<n - 1. isl (fst (f ((s @ [x]) @ replicate i x)))"
      "case res of
         Inr v \<Rightarrow> fst (f ((s @ [x]) @ replicate (n - 1) x)) = Inr v
       | Inl e \<Rightarrow> n = Suc r \<and>
           (\<exists>e0. fst (f ((s @ [x]) @ replicate r x)) = Inl e0 \<and> e = RetryError e0)"
      by blast
    have rep: "\<And>k. (s @ [x]) @ replicate k x = s @ replicate (Suc k) x"
      by (simp add: replicate_app_Cons_same)
    have a1: "s' = s @ replicate (Suc n) x" using n(3) rep by simp
    have "Suc a + (n - 1) = a + n" using n(1) by simp
    moreover have "[a..<a + n] = a # [Suc a..<a + n]"
      using n(1) by (simp add: upt_conv_Cons)
    ultimately have a2: "zs' = zs @ map wait [a..<a + (Suc n - 1)]"
      using n(4) by simp
    have a3: "\<forall>i<Suc n - 1. isl (fst (f (s @ replicate i x)))"
    proof (intro allI impI)
      fix i assume i: "i < Suc n - 1"
      show "isl (fst (f (s @ replicate i x)))"
      proof (cases i)
        case 0
        with fs Inl show ?thesis by simp
      next
        case (Suc j)
        with i n(1) have "j < n - 1" by simp
        with n(5) rep Suc show ?thesis by simp
      qed
    qed
    have a4: "case res of
         Inr v \<Rightarrow> fst (f (s @ replicate (Suc n - 1) x)) = Inr v
       | Inl e \<Rightarrow> Suc n = Suc (Suc r) \<and>
           (\<exists>e0. fst (f (s @ replicate (Suc r) x)) = Inl e0 \<and> e = RetryError e0)"
      using n(6) n(1) rep [of "n - 1"] rep [of r] by (cases res) simp_all
    show ?thesis
      using n(2) a1 a2 a3 a4 by (intro exI [of _ "Suc n"]) simp
  qed
qed


lemma notify_once_world:
  "snd (notify_once client url data s) = s @ [notify_request url data]"
  by (simp add: notify_once_def split: sum.splits prod.splits)

lemma notify_once_isl:
  "isl (fst (notify_once client url data s)) = (\<not> answers_200 client s (notify_request url data))"
  by (simp add: notify_once_def answers_200_def split: sum.splits prod.splits)

lemma notify_once_Inr:
  "fst (notify_once client url data s) = Inr v \<Longrightarrow>
     v \<and> answers_200 client s (notify_request url data)"
  by (auto simp: notify_once_def answers_200_def split: sum.splits prod.splits if_splits)

lemma notify_waits:
  assumes "0 < n" "n \<le> 5"
  shows "map (wait_exponential 1 1 8) [1..<1 + (n - 1)] = take (n - 1) [1, 2, 4, 8]"
proof -
  from assms have "n = 1 \<or> n = 2 \<or> n = 3 \<or> n = 4 \<or> n = 5" by arith
  then show ?thesis
    by (elim disjE) (simp_all add: wait_exponential_def upt_rec)
qed

text \<open>
  Claim C4, as the code has it. \<open>notify_evaluation\<close> posts the same request (URL, payload,
  headers) between one and five times; the sleeps between attempts are 1, 2, 4 and 8 seconds.
  Only status 200 counts as confirmation: every attempt before the last one was not answered
  with 200; when the call returns, it returns \<open>True\<close> and the last attempt was answered with
  200; when it fails, five attempts were made, none answered with 200, and the caller gets a
  retry error.
\<close>

theorem notify_evaluation_retries:
  assumes "notify_evaluation client evaluation_url data (w, zs) = (res, (w', zs'))"
  shows "\<exists>n. 0 < n \<and> n \<le> 5 \<and>
           w' = w @ replicate n (notify_request evaluation_url data) \<and>
           zs' = zs @ take (n - 1) [1, 2, 4, 8] \<and>
           (\<forall>i<n - 1. \<not> answers_200 client
                          (w @ replicate i (notify_request evaluation_url data))
                          (notify_request evaluation_url data)) \<and>
           (case res of
              Inr b \<Rightarrow> b \<and> answers_200 client
                              (w @ replicate (n - 1) (notify_request evaluation_url data))
                              (notify_request evaluation_url data)
            | Inl e \<Rightarrow> n = 5 \<and> (\<exists>msg. e = RetryError msg) \<and>
                       \<not> answers_200 client
                            (w @ replicate 4 (notify_request evaluation_url data))
                            (notify_request evaluation_url data))"
proof -
  let ?req = "notify_request evaluation_url data"
  let ?f = "notify_once client evaluation_url data"
  from assms have run:
    "retry_from (wait_exponential 1 1 8) ?f 4 1 (w, zs) = (res, (w', zs'))"
    by (simp add: notify_evaluation_def retry_def)
  from retry_from_trace [of ?f ?req, OF notify_once_world run]
  obtain n where n0: "0 < n" "n \<le> Suc 4" "w' = w @ replicate n ?req"
    "zs' = zs @ map (wait_exponential 1 1 8) [1..<1 + (n - 1)]"
    "\<forall>i<n - 1. isl (fst (?f (w @ replicate i ?req)))"
    "case res of
       Inr v \<Rightarrow> fst (?f (w @ replicate (n - 1) ?req)) = Inr v
     | Inl e \<Rightarrow> n = Suc 4 \<and> (\<exists>e0. fst (?f (w @ replicate 4 ?req)) = Inl e0 \<and> e = RetryError e0)"
    by blast
  from n0(2) have n5: "n \<le> 5" by simp
  note n = n0(1) n5 n0(3-)
  have z: "zs' = zs @ take (n - 1) [1, 2, 4, 8]"
    using n(4) notify_waits [OF n(1,2)] by simp
  have early: "\<forall>i<n - 1. \<not> answers_200 client (w @ replicate i ?req) ?req"
    using n(5) by (simp add: notify_once_isl)
  have fin: "case res of
              Inr b \<Rightarrow> b \<and> answers_200 client (w @ replicate (n - 1) ?req) ?req
            | Inl e \<Rightarrow> n = 5 \<and> (\<exists>msg. e = RetryError msg) \<and>
                       \<not> answers_200 client (w @ replicate 4 ?req) ?req"
  proof (cases res)
    case (Inr b)
    with n(6) notify_once_Inr [of client evaluation_url data "w @ replicate (n - 1) ?req" b]
    show ?thesis by simp
  next
    case (Inl e)
    with n(6) obtain e0 where "n = 5" "fst (?f (w @ replicate 4 ?req)) = Inl e0" "e = RetryError e0"
      by auto
    moreover from this(2) have "isl (fst (?f (w @ replicate 4 ?req)))" by simp
    then have "\<not> answers_200 client (w @ replicate 4 ?req) ?req"
      using notify_once_isl [of client evaluation_url data "w @ replicate 4 ?req"] by blast
    ultimately show ?thesis using Inl by simp
  qed
  show ?thesis using n(1,2,3) z early fin by blast
qed

theorem notify_evaluation_retries_witness:
  "notify_evaluation ok_on_third ''http://e'' E0 ([], []) =
     (Inr True, (replicate 3 (notify_request ''http://e'' E0), [1, 2])) \<and>
   \<not> answers_200 ok_on_third [] (notify_request ''http://e'' E0) \<and>
   answers_200 ok_on_third (replicate 2 (notify_request ''http://e'' E0))
     (notify_request ''http://e'' E0)"
proof -
  have h: "notify_evaluation ok_on_third ''http://e'' E0 ([], []) =
     (Inr True, (replicate 3 (notify_request ''http://e'' E0), [1, 2]))"
    by code_simp
  from notify_evaluation_retries [OF h] obtain n where n: "0 < n" "n \<le> 5"
    "replicate 3 (notify_request ''http://e'' E0) = [] @ replicate n (notify_request ''http://e'' E0)"
    "\<forall>i<n - 1. \<not> answers_200 ok_on_third ([] @ replicate i (notify_request ''http://e'' E0))
                          (notify_request ''http://e'' E0)"
    "answers_200 ok_on_third ([] @ replicate (n - 1) (notify_request ''http://e'' E0))
        (notify_request ''http://e'' E0)"
    by auto
  from n(3) have "length (replicate 3 (notify_request ''http://e'' E0)) =
      length (replicate n (notify_request ''http://e'' E0))" by simp
  then have "n = 3" by simp
  with n(4,5) h show ?thesis by (auto simp: numeral_2_eq_2)
qed

text \<open>
  The claim as written counts any 2xx status as success. An evaluator that answers 201 to
  every POST is never taken as having confirmed: five attempts, then the retry error.
\<close>

theorem notify_evaluation_201_counterexample:
  "always_201 [] (notify_request ''http://e'' E0) = Inr (201, ''Created'') \<and>
   notify_evaluation always_201 ''http://e'' E0 ([], []) =
     (Inl (RetryError ''Non-200 response: 201''),
      (replicate 5 (notify_request ''http://e'' E0), [1, 2, 4, 8]))"
  by code_simp

subsection \<open>Generated and updated file sets\<close>

lemma dict_get_set:
  "dict_get (dict_set d k v) k' = (if k' = k then Some v else dict_get d k')"
  by (induction d) (auto simp: dict_get_def)

lemma dict_contains_get: "dict_contains d k = (dict_get d k \<noteq> None)"
  by (simp add: dict_contains_def dict_get_def map_of_eq_None_iff)

lemma dict_contains_set:
  "dict_contains (dict_set d k v) k' = (k' = k \<or> dict_contains d k')"
  by (simp add: dict_contains_get dict_get_set)

lemma dict_get_Cons:
  "dict_get ((k, v) # d) k' = (if k' = k then Some v else dict_get d k')"
  by (simp add: dict_get_def)

lemma dict_get_Nil: "dict_get [] k = None"
  by (simp add: dict_get_def)

lemma merge_existing_get:
  "dict_get (merge_existing existing files) k =
     (case dict_get files k of
        Some v \<Rightarrow> Some v
      | None \<Rightarrow> if k = ''README.md'' then None else dict_get existing k)"
proof (induction existing arbitrary: files)
  case Nil
  then show ?case by (simp add: dict_get_Nil split: option.splits)
next
  case (Cons a existing)
  obtain key val where a: "a = (key, val)" by (cases a)
  show ?case
  proof (cases "\<not> dict_contains files key \<and> key \<noteq> ''README.md''")
    case True
    then have "dict_get files key = None" by (simp add: dict_contains_get)
    with True show ?thesis
      unfolding a by (simp add: Cons.IH dict_get_set dict_get_Cons split: option.splits)
  next
    case False
    then have "merge_existing (a # existing) files = merge_existing existing files"
      unfolding a by auto
    moreover from False have "key = ''README.md'' \<or> dict_get files key \<noteq> None"
      by (auto simp: dict_contains_get)
    ultimately show ?thesis
      unfolding a by (auto simp: Cons.IH dict_get_Cons split: option.splits)
  qed
qed

lemma merge_and_update_readme_get:
  "k \<noteq> ''README.md'' \<Longrightarrow>
     dict_get (merge_and_update_readme request existing files) k =
       (case dict_get files k of Some v \<Rightarrow> Some v | None \<Rightarrow> dict_get existing k)"
  by (simp add: merge_and_update_readme_def Let_def dict_get_set merge_existing_get
           split: option.splits)

lemma merge_and_update_readme_contains:
  "dict_contains (merge_and_update_readme request existing files) k =
     (dict_contains files k \<or> dict_contains existing k \<and> k \<noteq> ''README.md'')"
  by (auto simp: merge_and_update_readme_def Let_def dict_contains_get dict_get_set
        merge_existing_get split: option.splits if_splits)

lemma ensure_required_files_contains:
  "dict_contains (ensure_required_files request files) ''index.html'' \<and>
   dict_contains (ensure_required_files request files) ''README.md'' \<and>
   dict_contains (ensure_required_files request files) ''LICENSE''"
  by (simp add: ensure_required_files_def Let_def dict_contains_set)

lemma update_application_Inr:
  assumes "update_application lib u api settings mgr request existing atts st = (Inr files, st')"
  shows "\<exists>response text.
           generate_with_fallback u api settings mgr (update_prompt lib request existing atts)
             (Some update_system_prompt) (Some atts) st = (Inr response, st') \<and>
           resp_content response = Some text \<and>
           files = merge_and_update_readme request existing (parse_code_response lib text)"
  using assms unfolding update_application_def
  by (auto split: prod.splits sum.splits option.splits)

lemma generate_application_Inr:
  assumes "generate_application lib u api settings mgr request atts st = (Inr files, st')"
  shows "\<exists>response text.
           generate_with_fallback u api settings mgr (generation_prompt lib request atts)
             (Some generation_system_prompt) (Some atts) st = (Inr response, st') \<and>
           resp_content response = Some text \<and>
           files = ensure_required_files request (parse_code_response lib text)"
  using assms unfolding generate_application_def
  by (auto split: prod.splits sum.splits option.splits)

text \<open>
  Claim C7, as the code has it. The file set \<open>generate_application\<close> returns always has
  \<open>index.html\<close>, \<open>README.md\<close> and \<open>LICENSE\<close>: each is added with a default when the
  parsed response lacks it. \<open>update_application\<close> supplies no default: the file set it
  returns has exactly the keys of the parsed response and the keys of the existing files other
  than \<open>README.md\<close>.
\<close>

theorem required_files_after_generation:
  "(generate_application lib u api settings mgr request atts st = (Inr files, st') \<longrightarrow>
      dict_contains files ''index.html'' \<and> dict_contains files ''README.md'' \<and>
      dict_contains files ''LICENSE'') \<and>
   (update_application lib u api settings mgr request existing atts st = (Inr files', st'') \<longrightarrow>
      (\<exists>response text.
         generate_with_fallback u api settings mgr (update_prompt lib request existing atts)
           (Some update_system_prompt) (Some atts) st = (Inr response, st'') \<and>
         resp_content response = Some text \<and>
         (\<forall>k. dict_contains files' k =
                (dict_contains (parse_code_response lib text) k \<or>
                 dict_contains existing k \<and> k \<noteq> ''README.md''))))"
proof (intro conjI impI)
  assume "generate_application lib u api settings mgr request atts st = (Inr files, st')"
  from generate_application_Inr [OF this] ensure_required_files_contains
  show "dict_contains files ''index.html''" "dict_contains files ''README.md''"
    "dict_contains files ''LICENSE''"
    by blast+
next
  assume "update_application lib u api settings mgr request existing atts st = (Inr files', st'')"
  from update_application_Inr [OF this] obtain response answer where
    "generate_with_fallback u api settings mgr (update_prompt lib request existing atts)
       (Some update_system_prompt) (Some atts) st = (Inr response, st'')"
    "resp_content response = Some answer"
    "files' = merge_and_update_readme request existing (parse_code_response lib answer)"
    by blast
  then show "\<exists>response text.
         generate_with_fallback u api settings mgr (update_prompt lib request existing atts)
           (Some update_system_prompt) (Some atts) st = (Inr response, st'') \<and>
         resp_content response = Some text \<and>
         (\<forall>k. dict_contains files' k =
                (dict_contains (parse_code_response lib text) k \<or>
                 dict_contains existing k \<and> k \<noteq> ''README.md''))"
    using merge_and_update_readme_contains by blast
qed

text \<open>
  Claim C8. When \<open>update_application\<close> returns a file set, every existing file whose key is
  not in the parsed response and is not \<open>README.md\<close> is in the file set with its content
  unchanged.
\<close>

theorem update_preserves_files:
  assumes "update_application lib u api settings mgr request existing_files atts st
             = (Inr files, st')"
  shows "\<exists>response text.
           generate_with_fallback u api settings mgr
             (update_prompt lib request existing_files atts)
             (Some update_system_prompt) (Some atts) st = (Inr response, st') \<and>
           resp_content response = Some text \<and>
           (\<forall>k v. dict_get existing_files k = Some v \<longrightarrow>
                  \<not> dict_contains (parse_code_response lib text) k \<longrightarrow>
                  k \<noteq> ''README.md'' \<longrightarrow> dict_get files k = Some v)"
proof -
  from update_application_Inr [OF assms] obtain response answer where r:
    "generate_with_fallback u api settings mgr (update_prompt lib request existing_files atts)
       (Some update_system_prompt) (Some atts) st = (Inr response, st')"
    "resp_content response = Some answer"
    "files = merge_and_update_readme request existing_files (parse_code_response lib answer)"
    by blast
  have "\<forall>k v. dict_get existing_files k = Some v \<longrightarrow>
                  \<not> dict_contains (parse_code_response lib answer) k \<longrightarrow>
                  k \<noteq> ''README.md'' \<longrightarrow> dict_get files k = Some v"
    by (simp add: r(3) merge_and_update_readme_get dict_contains_get)
  with r(1,2) show ?thesis by blast
qed

subsection \<open>The file sets of a concrete run\<close>

lemma script_answers:
  "fst (generate_with_fallback (\<lambda>s. s) api_script S0 M0 P SP (Some []) ([], [])) = Inr R_script"
  by (simp add: generate_with_fallback_def retry_3_unfold cascade_def S0_def M0_def LLMManager_init_def
        initialize_providers_def add_provider_def available_providers_def dict_get_def
        is_available_def generate_def build_request_def openai_request_def
        attachments_or_empty_def api_script_def read_reply_def provider_label_def R_script_def
        split: sum.splits prod.splits option.splits)

lemma script_parsed:
  "parse_code_response lib0 ''{\"script.js\": \"v2\"}'' = [(''script.js'', ''v2'')]"
  by code_simp

lemma script_merged:
  "merge_and_update_readme Q2 old_files [(''script.js'', ''v2'')] = updated_files"
  by code_simp


lemma update_script:
  "\<exists>st. update_application lib0 (\<lambda>s. s) api_script S0 M0 Q2 ex [] ([], []) =
     (Inr (merge_and_update_readme Q2 ex [(''script.js'', ''v2'')]), st)"
proof -
  let ?w = "generate_with_fallback (\<lambda>s. s) api_script S0 M0 (update_prompt lib0 Q2 ex [])
              (Some update_system_prompt) (Some []) ([], [])"
  from script_answers [of "update_prompt lib0 Q2 ex []" "Some update_system_prompt"]
  obtain st where eq: "?w = (Inr R_script, st)" by (cases ?w) simp
  have "update_application lib0 (\<lambda>s. s) api_script S0 M0 Q2 ex [] ([], []) =
     (Inr (merge_and_update_readme Q2 ex (parse_code_response lib0 ''{\"script.js\": \"v2\"}'')),
      st)"
    unfolding update_application_def eq by (simp add: R_script_def)
  then show ?thesis unfolding script_parsed by (rule exI)
qed

lemma generate_script:
  "\<exists>st. generate_application lib0 (\<lambda>s. s) api_script S0 M0 Q2 [] ([], []) =
     (Inr (ensure_required_files Q2 [(''script.js'', ''v2'')]), st)"
proof -
  let ?w = "generate_with_fallback (\<lambda>s. s) api_script S0 M0 (generation_prompt lib0 Q2 [])
              (Some generation_system_prompt) (Some []) ([], [])"
  from script_answers [of "generation_prompt lib0 Q2 []" "Some generation_system_prompt"]
  obtain st where eq: "?w = (Inr R_script, st)" by (cases ?w) simp
  have "generate_application lib0 (\<lambda>s. s) api_script S0 M0 Q2 [] ([], []) =
     (Inr (ensure_required_files Q2 (parse_code_response lib0 ''{\"script.js\": \"v2\"}'')),
      st)"
    unfolding generate_application_def eq by (simp add: R_script_def)
  then show ?thesis unfolding script_parsed by (rule exI)
qed

theorem required_files_after_generation_witness:
  "fst (generate_application lib0 (\<lambda>s. s) api_script S0 M0 Q2 [] ([], []))
     = Inr (ensure_required_files Q2 [(''script.js'', ''v2'')]) \<and>
   dict_contains (ensure_required_files Q2 [(''script.js'', ''v2'')]) ''index.html'' \<and>
   dict_contains (ensure_required_files Q2 [(''script.js'', ''v2'')]) ''README.md'' \<and>
   dict_contains (ensure_required_files Q2 [(''script.js'', ''v2'')]) ''LICENSE'' \<and>
   fst (update_application lib0 (\<lambda>s. s) api_script S0 M0 Q2 old_files [] ([], []))
     = Inr updated_files \<and>
   (\<exists>(response :: LLMResponse) answer.
      resp_content response = Some answer \<and>
      dict_contains updated_files ''LICENSE'' =
        (dict_contains (parse_code_response lib0 answer) ''LICENSE'' \<or>
         dict_contains old_files ''LICENSE'' \<and> ''LICENSE'' \<noteq> ''README.md''))"
proof -
  from generate_script obtain st1 where
    ge: "generate_application lib0 (\<lambda>s. s) api_script S0 M0 Q2 [] ([], []) =
           (Inr (ensure_required_files Q2 [(''script.js'', ''v2'')]), st1)" ..
  from update_script [of old_files] obtain st2 where
    ue: "update_application lib0 (\<lambda>s. s) api_script S0 M0 Q2 old_files [] ([], []) =
           (Inr updated_files, st2)"
    unfolding script_merged ..
  note t = required_files_after_generation [of lib0 "\<lambda>s. s" api_script S0 M0 Q2 "[]" "([], [])"
      "ensure_required_files Q2 [(''script.js'', ''v2'')]" st1 old_files updated_files st2]
  note t1 = t [THEN conjunct1, THEN mp, OF ge]
  note t2 = t [THEN conjunct2, THEN mp, OF ue]
  from t2 have e: "\<exists>(response :: LLMResponse) answer.
      resp_content response = Some answer \<and>
      dict_contains updated_files ''LICENSE'' =
        (dict_contains (parse_code_response lib0 answer) ''LICENSE'' \<or>
         dict_contains old_files ''LICENSE'' \<and> ''LICENSE'' \<noteq> ''README.md'')"
  proof (elim exE conjE)
    fix response :: LLMResponse and answer
    assume a: "resp_content response = Some answer"
      and b: "\<forall>k. dict_contains updated_files k =
          (dict_contains (parse_code_response lib0 answer) k \<or>
           dict_contains old_files k \<and> k \<noteq> ''README.md'')"
    from b have c: "dict_contains updated_files ''LICENSE'' =
        (dict_contains (parse_code_response lib0 answer) ''LICENSE'' \<or>
         dict_contains old_files ''LICENSE'' \<and> ''LICENSE'' \<noteq> ''README.md'')"
      by (rule spec)
    from conjI [OF a c] show ?thesis by (intro exI)
  qed
  from ge have g: "fst (generate_application lib0 (\<lambda>s. s) api_script S0 M0 Q2 [] ([], []))
     = Inr (ensure_required_files Q2 [(''script.js'', ''v2'')])" by simp
  from ue have u: "fst (update_application lib0 (\<lambda>s. s) api_script S0 M0 Q2 old_files []
     ([], [])) = Inr updated_files" by simp
  note r1 = t1 [THEN conjunct1]
  note r2 = t1 [THEN conjunct2, THEN conjunct1]
  note r3 = t1 [THEN conjunct2, THEN conjunct2]
  from g r1 r2 r3 u e show ?thesis by (intro conjI)
qed

text \<open>
  The claim as written has the three required files in every file set handed to publish, on
  the update path too. With a repository that holds all three and a response that regenerates
  only the script, \<open>update_application\<close> returns no \<open>README.md\<close>; with no prior files it
  returns only the script, without entry page and license.
\<close>

theorem update_drops_readme_counterexample:
  "fst (update_application lib0 (\<lambda>s. s) api_script S0 M0 Q2 old_files [] ([], []))
     = Inr updated_files \<and>
   dict_contains old_files ''README.md'' \<and>
   \<not> dict_contains updated_files ''README.md'' \<and>
   fst (update_application lib0 (\<lambda>s. s) api_script S0 M0 Q2 [] [] ([], []))
     = Inr [(''script.js'', ''v2'')] \<and>
   \<not> dict_contains [(''script.js'', ''v2'')] ''index.html'' \<and>
   \<not> dict_contains [(''script.js'', ''v2'' :: string)] ''LICENSE''"
proof -
  from update_script [of old_files] obtain st2 where
    "update_application lib0 (\<lambda>s. s) api_script S0 M0 Q2 old_files [] ([], []) =
           (Inr updated_files, st2)"
    unfolding script_merged ..
  then have a: "fst (update_application lib0 (\<lambda>s. s) api_script S0 M0 Q2 old_files []
     ([], [])) = Inr updated_files" by simp
  have m: "merge_and_update_readme Q2 [] [(''script.js'', ''v2'')] = [(''script.js'', ''v2'')]"
    by code_simp
  from update_script [of "[]"] obtain st3 where
    "update_application lib0 (\<lambda>s. s) api_script S0 M0 Q2 [] [] ([], []) =
           (Inr [(''script.js'', ''v2'')], st3)"
    unfolding m ..
  then have b: "fst (update_application lib0 (\<lambda>s. s) api_script S0 M0 Q2 [] [] ([], []))
     = Inr [(''script.js'', ''v2'')]" by simp
  have c: "dict_contains old_files ''README.md''" "\<not> dict_contains updated_files ''README.md''"
    "\<not> dict_contains [(''script.js'', ''v2'')] ''index.html''"
    "\<not> dict_contains [(''script.js'', ''v2'' :: string)] ''LICENSE''"
    by code_simp+
  from a b c show ?thesis by (intro conjI)
qed

theorem update_preserves_files_witness:
  "fst (update_application lib0 (\<lambda>s. s) api_script S0 M0 Q2 old_files [] ([], []))
     = Inr updated_files \<and>
   dict_get old_files ''.init'' = Some ''x'' \<and>
   dict_get updated_files ''.init'' = Some ''x'' \<and>
   dict_get old_files ''script.js'' = Some ''v1'' \<and>
   dict_get updated_files ''script.js'' = Some ''v2'' \<and>
   dict_get updated_files ''index.html'' = Some ''<html>''"
proof -
  let ?w = "generate_with_fallback (\<lambda>s. s) api_script S0 M0 (update_prompt lib0 Q2 old_files [])
              (Some update_system_prompt) (Some []) ([], [])"
  from update_script [of old_files] obtain st2 where
    ue: "update_application lib0 (\<lambda>s. s) api_script S0 M0 Q2 old_files [] ([], []) =
           (Inr updated_files, st2)"
    unfolding script_merged ..
  then have u: "fst (update_application lib0 (\<lambda>s. s) api_script S0 M0 Q2 old_files []
     ([], [])) = Inr updated_files" by simp
  have w: "fst ?w = Inr R_script" by (rule script_answers)
  have p: "\<not> dict_contains (parse_code_response lib0 ''{\"script.js\": \"v2\"}'') ''.init''"
    "\<not> dict_contains (parse_code_response lib0 ''{\"script.js\": \"v2\"}'') ''index.html''"
    unfolding script_parsed by code_simp+
  have o: "dict_get old_files ''.init'' = Some ''x''"
    "dict_get old_files ''index.html'' = Some ''<html>''"
    "dict_get old_files ''script.js'' = Some ''v1''"
    "dict_get updated_files ''script.js'' = Some ''v2''"
    by code_simp+
  have ne: "''.init'' \<noteq> ''README.md''" "''index.html'' \<noteq> ''README.md''" by simp_all
  from update_preserves_files [OF ue]
  have "dict_get updated_files ''.init'' = Some ''x'' \<and>
        dict_get updated_files ''index.html'' = Some ''<html>''"
  proof (elim exE conjE)
    fix response :: LLMResponse and answer
    assume r: "?w = (Inr response, st2)" "resp_content response = Some answer"
      "\<forall>k v. dict_get old_files k = Some v \<longrightarrow>
           \<not> dict_contains (parse_code_response lib0 answer) k \<longrightarrow>
           k \<noteq> ''README.md'' \<longrightarrow> dict_get updated_files k = Some v"
    from r(1) have "fst ?w = Inr response" by simp
    with w have "response = R_script" by simp
    with r(2) have ans: "answer = ''{\"script.js\": \"v2\"}''" by (simp add: R_script_def)
    from r(3) [rule_format, OF o(1) p(1) [folded ans] ne(1)]
      r(3) [rule_format, OF o(2) p(2) [folded ans] ne(2)]
    show ?thesis by (intro conjI)
  qed
  note d = this
  from u o(1) d [THEN conjunct1] o(3) o(4) d [THEN conjunct2] show ?thesis by (intro conjI)
qed

subsection \<open>Publishing to the repository host\<close>

lemma host_call_effect:
  "host_call n r = (f, r') \<Longrightarrow>
     default_branch r' = default_branch r \<and> refs r' = refs r \<and> commits r' = commits r
     \<and> trees r' = trees r \<and> ref_log r' = ref_log r \<and> calls r' = calls r @ [n]"
  by (auto simp: host_call_def split: list.splits)









lemma create_file_effect:
  "create_file path m c branch r = (res, r') \<Longrightarrow>
     default_branch r' = default_branch r \<and> calls r' = calls r @ [''create_file'']
     \<and> (case res of
           Inl e \<Rightarrow> refs r' = refs r \<and> commits r' = commits r \<and> trees r' = trees r
                    \<and> ref_log r' = ref_log r
         | Inr sha \<Rightarrow>
             sha = length (commits r)
             \<and> refs r' = dict_set (refs r) (''heads/'' @ branch) sha
             \<and> ref_log r' = ref_log r @ [(''heads/'' @ branch, sha)]
             \<and> (commits r = []
                  \<and> trees r' = trees r @ [[(path, c)]]
                  \<and> commits r' = commits r @
                        [\<lparr>commit_message = m, commit_tree = length (trees r),
                          commit_parents = []\<rparr>]
                \<or> (\<exists>tip. dict_get (refs r) (''heads/'' @ branch) = Some tip
                     \<and> tip < length (commits r)
                     \<and> commit_tree (commits r ! tip) < length (trees r)
                     \<and> \<not> dict_contains (trees r ! commit_tree (commits r ! tip)) path
                     \<and> trees r' = trees r @
                           [dict_set (trees r ! commit_tree (commits r ! tip)) path c]
                     \<and> commits r' = commits r @
                           [\<lparr>commit_message = m, commit_tree = length (trees r),
                             commit_parents = [tip]\<rparr>])))"
  by (auto simp: create_file_def host_call_def split: list.splits option.splits if_splits)



lemma tree_elements_set:
  "set (tree_elements files) = {(p, c). (p, c) \<in> set files \<and> p \<noteq> ''round''}"
  by (induction files rule: tree_elements.induct) auto

lemma tree_elements_filter:
  "tree_elements files = filter (\<lambda>(p, c). p \<noteq> ''round'') files"
  by (induction files rule: tree_elements.induct) auto

lemma tree_elements_get:
  assumes "distinct (map fst files)" and "p \<noteq> ''round''"
  shows "dict_get (rev (tree_elements files)) p = dict_get files p"
proof -
  have d: "distinct (map fst (tree_elements files))"
    using assms(1) by (simp add: tree_elements_filter distinct_map_filter)
  have "distinct (map fst (rev (tree_elements files)))"
    using d by (simp add: rev_map [symmetric])
  then have "map_of (rev (tree_elements files)) = map_of (tree_elements files)"
    using d by (simp add: map_of_inject_set)
  moreover have "map_of (tree_elements files) p = map_of files p"
    using assms(2) by (induction files rule: tree_elements.induct) auto
  ultimately show ?thesis by (simp add: dict_get_def)
qed

lemma tree_elements_round: "dict_get (rev (tree_elements files)) ''round'' = None"
  by (auto simp: dict_get_def map_of_eq_None_iff tree_elements_set)






end
